theory Spec2Isabelle
  imports Complex_Main "HOL-Library.Multiset" "HOL-Library.Word"
begin

unbundle bit_operations_syntax

section \<open>JavaScript numbers and strings\<close>

text \<open>
  A JavaScript number is modelled as a real, extended with \<open>NaN\<close> where the source can
  produce it (\<open>parseFloat\<close>, \<open>parseInt\<close>, \<open>0 / 0\<close>). Binary rounding and the infinities
  are outside the model. Strings are character lists; white space is the ASCII white space.
\<close>

datatype jsnum = NaN | Num real

text \<open>\<open>n || d\<close> for a number \<open>n\<close>: \<open>NaN\<close> and \<open>0\<close> are falsy.\<close>

fun numOr :: "jsnum \<Rightarrow> real \<Rightarrow> real" where
  "numOr NaN d = d"
| "numOr (Num r) d = (if r = 0 then d else r)"

text \<open>
  The white space that \<open>trim\<close>, \<open>parseFloat\<close> and \<open>parseInt\<close> skip, among the characters
  of a string here (one byte each): blank, tab, line feed, vertical tab, form feed,
  carriage return and the no-break space.
\<close>

definition isWhite :: "char \<Rightarrow> bool" where
  "isWhite c = (c \<in> set [CHR '' '', CHR 0x09, CHR 0x0A, CHR 0x0B, CHR 0x0C, CHR 0x0D, CHR 0xA0])"

definition isDigit :: "char \<Rightarrow> bool" where
  "isDigit c = (c \<in> set ''0123456789'')"

definition digitVal :: "char \<Rightarrow> nat" where
  "digitVal c = (case map_of (zip ''0123456789'' [0, 1, 2, 3, 4, 5, 6, 7, 8, 9]) c of
                   Some d \<Rightarrow> d | None \<Rightarrow> 0)"

definition digitsVal :: "string \<Rightarrow> nat" where
  "digitsVal ds = foldl (\<lambda>a c. 10 * a + digitVal c) 0 ds"

definition trim :: "string \<Rightarrow> string" where
  "trim s = rev (dropWhile isWhite (rev (dropWhile isWhite s)))"

definition startsWith :: "string \<Rightarrow> string \<Rightarrow> bool" where
  "startsWith s p = (take (length p) s = p)"

definition endsWith :: "string \<Rightarrow> string \<Rightarrow> bool" where
  "endsWith s p = (length p \<le> length s \<and> drop (length s - length p) s = p)"

fun strIncludes :: "string \<Rightarrow> string \<Rightarrow> bool" where
  "strIncludes [] p = (p = [])"
| "strIncludes (c # cs) p = (startsWith (c # cs) p \<or> strIncludes cs p)"

definition toLower :: "char \<Rightarrow> char" where
  "toLower c = (case map_of (zip ''ABCDEFGHIJKLMNOPQRSTUVWXYZ'' ''abcdefghijklmnopqrstuvwxyz'') c of
                  Some l \<Rightarrow> l | None \<Rightarrow> c)"

definition toLowerCase :: "string \<Rightarrow> string" where
  "toLowerCase s = map toLower s"

text \<open>
  \<open>parseFloat\<close> on a string: leading white space is skipped, then the longest prefix that
  is a decimal literal (sign, digits, fraction, exponent) is read; no digits gives \<open>NaN\<close>.
  The literal \<open>Infinity\<close> is not modelled.
\<close>

definition readSign :: "string \<Rightarrow> bool \<times> string" where
  "readSign s = (case s of
       [] \<Rightarrow> (False, [])
     | c # r \<Rightarrow> if c = CHR ''-'' then (True, r) else if c = CHR ''+'' then (False, r) else (False, s))"

definition readFraction :: "string \<Rightarrow> string \<times> string" where
  "readFraction s = (case s of
       [] \<Rightarrow> ([], [])
     | c # r \<Rightarrow> if c = CHR ''.'' then (takeWhile isDigit r, dropWhile isDigit r) else ([], s))"

definition readExponent :: "string \<Rightarrow> int" where
  "readExponent s = (case s of
       [] \<Rightarrow> 0
     | c # r \<Rightarrow>
         if c = CHR ''e'' \<or> c = CHR ''E'' then
           (let (neg, r') = readSign r; ds = takeWhile isDigit r'
            in if ds = [] then 0 else if neg then - int (digitsVal ds) else int (digitsVal ds))
         else 0)"

definition scale10 :: "real \<Rightarrow> int \<Rightarrow> real" where
  "scale10 v e = (if e < 0 then v / 10 ^ nat (- e) else v * 10 ^ nat e)"

definition parseFloat :: "string \<Rightarrow> jsnum" where
  "parseFloat s =
     (let (neg, s2) = readSign (dropWhile isWhite s);
          ip = takeWhile isDigit s2;
          (fp, s4) = readFraction (dropWhile isDigit s2);
          m = real (digitsVal ip) + real (digitsVal fp) / 10 ^ length fp
      in if ip = [] \<and> fp = [] then NaN
         else Num ((if neg then - 1 else 1) * scale10 m (readExponent s4)))"

text \<open>
  \<open>parseInt\<close> with no radix: white space, sign, an optional \<open>0x\<close> prefix (radix 16), then
  the digits of the radix; no digits gives \<open>NaN\<close>.
\<close>

definition isHexDigit :: "char \<Rightarrow> bool" where
  "isHexDigit c = (c \<in> set ''0123456789abcdefABCDEF'')"

definition hexVal :: "char \<Rightarrow> nat" where
  "hexVal c = (case map_of (zip ''0123456789abcdefABCDEF''
                   [0, 1, 2, 3, 4, 5, 6, 7, 8, 9, 10, 11, 12, 13, 14, 15, 10, 11, 12, 13, 14, 15]) c of
                 Some d \<Rightarrow> d | None \<Rightarrow> 0)"

definition hexDigitsVal :: "string \<Rightarrow> nat" where
  "hexDigitsVal ds = foldl (\<lambda>a c. 16 * a + hexVal c) 0 ds"

definition readRadix :: "bool \<Rightarrow> string \<Rightarrow> bool \<times> string" where
  "readRadix hex s = (if startsWith s ''0x'' \<or> startsWith s ''0X'' then (True, drop 2 s) else (hex, s))"

definition parseIntRadix :: "bool \<Rightarrow> string \<Rightarrow> jsnum" where
  "parseIntRadix hex s =
     (let (neg, s2) = readSign (dropWhile isWhite s);
          (h, s3) = readRadix hex s2;
          ds = (if h then takeWhile isHexDigit s3 else takeWhile isDigit s3);
          v = (if h then hexDigitsVal ds else digitsVal ds)
      in if ds = [] then NaN else Num ((if neg then - 1 else 1) * real v))"

definition parseInt :: "string \<Rightarrow> jsnum" where
  "parseInt s = parseIntRadix False s"

definition jsRound :: "real \<Rightarrow> real" where
  "jsRound v = real_of_int \<lfloor>v + 1 / 2\<rfloor>"

definition jsCeil :: "real \<Rightarrow> real" where
  "jsCeil v = real_of_int \<lceil>v\<rceil>"

section \<open>Clip regions (GeometrySnapshot.captureNode, both engines)\<close>

record clipRegion =
  cx :: real
  cy :: real
  cwidth :: real
  cheight :: real
  cradius :: jsnum

definition zeroClip :: clipRegion where
  "zeroClip = \<lparr>cx = 0, cy = 0, cwidth = 0, cheight = 0, cradius = Num 0\<rparr>"

text \<open>
  The branch \<open>if (parentClip) { ... }\<close> of \<open>captureNode\<close>, the same text in WebEngine.jsx
  and CanvasEngine.jsx: the corners \<open>x1, y1, x2, y2\<close> and the test \<open>x2 > x1 && y2 > y1\<close>.
\<close>

definition intersectClip :: "clipRegion \<Rightarrow> clipRegion \<Rightarrow> clipRegion" where
  "intersectClip parentClip myClip =
     (let x1 = max (cx parentClip) (cx myClip);
          y1 = max (cy parentClip) (cy myClip);
          x2 = min (cx parentClip + cwidth parentClip) (cx myClip + cwidth myClip);
          y2 = min (cy parentClip + cheight parentClip) (cy myClip + cheight myClip)
      in if x2 > x1 \<and> y2 > y1
         then \<lparr>cx = x1, cy = y1, cwidth = x2 - x1, cheight = y2 - y1, cradius = cradius myClip\<rparr>
         else zeroClip)"

definition clipsOverflow :: "string \<Rightarrow> bool" where
  "clipsOverflow ov = (ov = ''hidden'' \<or> ov = ''auto'')"

text \<open>WebEngine.jsx: the radius of the node's own region, percentages against the shorter side.\<close>

definition webRadius :: "string \<Rightarrow> real \<Rightarrow> real \<Rightarrow> jsnum" where
  "webRadius borderRadius w h =
     (let br = (if borderRadius = [] then ''0px'' else borderRadius)
      in if strIncludes br ''%''
         then (case parseFloat br of NaN \<Rightarrow> NaN | Num p \<Rightarrow> Num ((min w h * p) / 100))
         else Num (numOr (parseFloat br) 0))"

text \<open>CanvasEngine.jsx: \<open>parseFloat(computed.borderRadius) || 0\<close>.\<close>

definition canvasRadius :: "string \<Rightarrow> jsnum" where
  "canvasRadius borderRadius = Num (numOr (parseFloat borderRadius) 0)"

text \<open>
  \<open>currentClip\<close> as \<open>captureNode\<close> computes it from the inherited clip (\<open>None\<close> is
  \<open>null\<close>), the node's overflow and the node's own region.
\<close>

definition currentClip :: "string \<Rightarrow> clipRegion \<Rightarrow> clipRegion option \<Rightarrow> clipRegion option" where
  "currentClip ov myClip parentClip =
     (if clipsOverflow ov
      then (case parentClip of
              Some pc \<Rightarrow> Some (intersectClip pc myClip)
            | None \<Rightarrow> Some myClip)
      else parentClip)"

text \<open>A point lies in a region: the reading of a clip region as an axis-aligned rectangle.\<close>

definition inRegion :: "clipRegion \<Rightarrow> real \<times> real \<Rightarrow> bool" where
  "inRegion c p = (cx c \<le> fst p \<and> fst p \<le> cx c + cwidth c \<and> cy c \<le> snd p \<and> snd p \<le> cy c + cheight c)"

text \<open>The extent of the overlap of two regions along each axis (negative when they are apart).\<close>

definition overlapX :: "clipRegion \<Rightarrow> clipRegion \<Rightarrow> real" where
  "overlapX a b = min (cx a + cwidth a) (cx b + cwidth b) - max (cx a) (cx b)"

definition overlapY :: "clipRegion \<Rightarrow> clipRegion \<Rightarrow> real" where
  "overlapY a b = min (cy a + cheight a) (cy b + cheight b) - max (cy a) (cy b)"

section \<open>Flex layout (FlexNode, WebEngine.jsx and CanvasEngine.jsx)\<close>

text \<open>Arithmetic on numbers that may be \<open>NaN\<close>; a comparison with \<open>NaN\<close> is false.\<close>

fun jsAdd :: "jsnum \<Rightarrow> jsnum \<Rightarrow> jsnum" where
  "jsAdd (Num a) (Num b) = Num (a + b)"
| "jsAdd _ _ = NaN"

fun jsSub :: "jsnum \<Rightarrow> jsnum \<Rightarrow> jsnum" where
  "jsSub (Num a) (Num b) = Num (a - b)"
| "jsSub _ _ = NaN"

fun jsMul :: "jsnum \<Rightarrow> jsnum \<Rightarrow> jsnum" where
  "jsMul (Num a) (Num b) = Num (a * b)"
| "jsMul _ _ = NaN"

fun jsGt :: "jsnum \<Rightarrow> real \<Rightarrow> bool" where
  "jsGt (Num a) b = (a > b)"
| "jsGt NaN b = False"

text \<open>
  A property of a layout node as the tree builders pass it: absent, a number or a string.
\<close>

datatype propval = Undefined | PNum jsnum | PStr string

fun parseFloatProp :: "propval \<Rightarrow> jsnum" where
  "parseFloatProp Undefined = NaN"
| "parseFloatProp (PNum n) = n"
| "parseFloatProp (PStr s) = parseFloat s"

fun truthy :: "propval \<Rightarrow> bool" where
  "truthy Undefined = False"
| "truthy (PNum NaN) = False"
| "truthy (PNum (Num r)) = (r \<noteq> 0)"
| "truthy (PStr s) = (s \<noteq> [])"

text \<open>\<open>parseSize(value, base)\<close>, the utility at the head of both engine files.\<close>

fun parseSize :: "propval \<Rightarrow> real \<Rightarrow> jsnum" where
  "parseSize (PNum n) base = n"
| "parseSize Undefined base = Num 0"
| "parseSize (PStr s) base =
     (if s = [] then Num 0
      else if endsWith s ''px'' then parseFloat s
      else if endsWith s ''%'' then jsMul (case parseFloat s of NaN \<Rightarrow> NaN | Num p \<Rightarrow> Num (p / 100)) (Num base)
      else if s = ''auto'' then Num 0
      else Num (numOr (parseFloat s) 0))"

text \<open>
  A flex child as \<open>calculateFlexSizes\<close> reads it: the three flex properties and
  \<open>child.intrinsicSize[mainAxis]\<close>, cached by the measure phase.
\<close>

record flexChild =
  flexBasis :: propval
  flexGrow :: propval
  flexShrink :: propval
  intrinsicMain :: real

definition baseSize :: "real \<Rightarrow> flexChild \<Rightarrow> jsnum" where
  "baseSize availableSpace child =
     (if truthy (flexBasis child) \<and> flexBasis child \<noteq> PStr ''auto''
      then parseSize (flexBasis child) availableSpace
      else Num (intrinsicMain child))"

text \<open>\<open>parseFloat(child.props.flexGrow) || 0\<close> and \<open>parseFloat(child.props.flexShrink) || 1\<close>.\<close>

definition growOf :: "flexChild \<Rightarrow> real" where
  "growOf child = numOr (parseFloatProp (flexGrow child)) 0"

definition shrinkOf :: "flexChild \<Rightarrow> real" where
  "shrinkOf child = numOr (parseFloatProp (flexShrink child)) 1"

text \<open>\<open>gap * (n - 1)\<close> for an array of length \<open>n\<close> (negative for the empty array).\<close>

definition totalGapOf :: "real \<Rightarrow> nat \<Rightarrow> real" where
  "totalGapOf gap n = gap * (real_of_int (int n - 1))"

definition jsMax0 :: "jsnum \<Rightarrow> jsnum" where
  "jsMax0 v = (case v of NaN \<Rightarrow> NaN | Num r \<Rightarrow> Num (max 0 r))"

definition calculateFlexSizes :: "flexChild list \<Rightarrow> real \<Rightarrow> real \<Rightarrow> jsnum list" where
  "calculateFlexSizes children availableSpace gap =
     (let totalGap = totalGapOf gap (length children);
          baseSizes = map (baseSize availableSpace) children;
          totalBaseSize = foldl jsAdd (Num 0) baseSizes;
          remainingSpace = jsSub (Num (availableSpace - totalGap)) totalBaseSize
      in case remainingSpace of
           NaN \<Rightarrow> baseSizes
         | Num r \<Rightarrow>
             if r > 0 then
               (let totalGrow = foldl (\<lambda>sum child. sum + growOf child) 0 children
                in if totalGrow > 0
                   then map2 (\<lambda>child b. jsAdd b (Num (r * growOf child / totalGrow))) children baseSizes
                   else baseSizes)
             else if r < 0 then
               (let totalShrink = foldl (\<lambda>sum child. sum + shrinkOf child) 0 children
                in if totalShrink > 0
                   then map2 (\<lambda>child b. jsMax0 (jsSub b (Num (\<bar>r\<bar> * shrinkOf child / totalShrink))))
                          children baseSizes
                   else baseSizes)
             else baseSizes)"

text \<open>
  \<open>calculateMainAxisPositions(sizes, justifyContent, availableSpace, gap)\<close>: the start
  offset chosen by the \<open>switch\<close>, the spacing added after every item but the last, and the
  loop that records the running position.
\<close>

definition startOffset :: "string \<Rightarrow> real \<Rightarrow> nat \<Rightarrow> real" where
  "startOffset justifyContent freeSpace n =
     (if justifyContent = ''flex-start'' then 0
      else if justifyContent = ''flex-end'' then freeSpace
      else if justifyContent = ''center'' then freeSpace / 2
      else if justifyContent = ''space-between'' then 0
      else if justifyContent = ''space-around'' then freeSpace / (real n * 2)
      else if justifyContent = ''space-evenly'' then freeSpace / (real n + 1)
      else 0)"

definition spacing :: "string \<Rightarrow> real \<Rightarrow> real \<Rightarrow> nat \<Rightarrow> real" where
  "spacing justifyContent freeSpace gap n =
     (if justifyContent = ''space-between'' \<and> n > 1 then gap + freeSpace / (real n - 1)
      else if justifyContent = ''space-around'' then gap + freeSpace / real n
      else if justifyContent = ''space-evenly'' then gap + freeSpace / (real n + 1)
      else gap)"

fun positionsFrom :: "real \<Rightarrow> real \<Rightarrow> real list \<Rightarrow> real list" where
  "positionsFrom step currentPos [] = []"
| "positionsFrom step currentPos (sz # rest) =
     currentPos # positionsFrom step (if rest = [] then currentPos + sz else currentPos + sz + step) rest"

definition calculateMainAxisPositions :: "real list \<Rightarrow> string \<Rightarrow> real \<Rightarrow> real \<Rightarrow> real list" where
  "calculateMainAxisPositions sizes justifyContent availableSpace gap =
     (let totalSize = foldl (\<lambda>sum s. sum + s) 0 sizes;
          totalGap = totalGapOf gap (length sizes);
          freeSpace = availableSpace - totalSize - totalGap
      in positionsFrom (spacing justifyContent freeSpace gap (length sizes))
           (startOffset justifyContent freeSpace (length sizes)) sizes)"

text \<open>
  The main-axis coordinate \<open>layout\<close> gives each child: \<open>contentBox.x + positions[i]\<close> in a
  row, \<open>contentBox.y + positions[i]\<close> in a column.
\<close>

definition childMainStarts :: "real \<Rightarrow> real list \<Rightarrow> string \<Rightarrow> real \<Rightarrow> real \<Rightarrow> real list" where
  "childMainStarts contentStart sizes justifyContent availableSpace gap =
     map (\<lambda>p. contentStart + p) (calculateMainAxisPositions sizes justifyContent availableSpace gap)"

text \<open>The free space of a flex line: what the container has beyond the items and the fixed gaps.\<close>

definition freeSpaceOf :: "real list \<Rightarrow> real \<Rightarrow> real \<Rightarrow> real" where
  "freeSpaceOf sizes availableSpace gap = availableSpace - sum_list sizes - gap * (real (length sizes) - 1)"

text \<open>The space between the end of item \<open>i\<close> and the start of item \<open>i + 1\<close>.\<close>

definition gapAfter :: "real list \<Rightarrow> real list \<Rightarrow> nat \<Rightarrow> real" where
  "gapAfter starts sizes i = starts ! (i + 1) - (starts ! i + sizes ! i)"

section \<open>Grid tracks (GridNode.resolveGridTracks)\<close>

text \<open>\<open>String(track).endsWith('fr')\<close>: the rendering of a number never ends in \<open>fr\<close>.\<close>

definition isFrTrack :: "propval \<Rightarrow> bool" where
  "isFrTrack track = (case track of PStr s \<Rightarrow> endsWith s ''fr'' | _ \<Rightarrow> False)"

text \<open>
  The first pass over the tracks. \<open>calculateAutoTrackSize(i, axis)\<close> depends on the
  children placed in the track and is taken as the parameter \<open>autoSize\<close>.
\<close>

definition firstPassSize :: "(nat \<Rightarrow> real) \<Rightarrow> real \<Rightarrow> nat \<times> propval \<Rightarrow> jsnum" where
  "firstPassSize autoSize availableSpace it =
     (if isFrTrack (snd it) then Num 0
      else if snd it = PStr ''auto'' then Num (autoSize (fst it))
      else parseSize (snd it) availableSpace)"

definition sumNums :: "jsnum list \<Rightarrow> jsnum" where
  "sumNums ns = foldl jsAdd (Num 0) ns"

definition resolveGridTracks :: "(nat \<Rightarrow> real) \<Rightarrow> propval list \<Rightarrow> real \<Rightarrow> real \<Rightarrow> jsnum list" where
  "resolveGridTracks autoSize tracks availableSpace gap =
     (let totalGap = totalGapOf gap (length tracks);
          indexed = zip [0 ..< length tracks] tracks;
          sizes = map (firstPassSize autoSize availableSpace) indexed;
          usedSpace = sumNums (map (firstPassSize autoSize availableSpace)
                                 (filter (\<lambda>it. \<not> isFrTrack (snd it)) indexed));
          frTracks = filter (\<lambda>it. isFrTrack (snd it)) indexed;
          remaining = jsSub (jsSub (Num availableSpace) usedSpace) (Num totalGap);
          totalFr = sumNums (map (\<lambda>it. parseFloatProp (snd it)) frTracks)
      in case (totalFr, remaining) of
           (Num tf, Num rem) \<Rightarrow>
             if tf > 0 \<and> rem > 0
             then map (\<lambda>it. if isFrTrack (snd it)
                             then jsMul (Num (rem / tf)) (parseFloatProp (snd it))
                             else firstPassSize autoSize availableSpace it) indexed
             else sizes
         | _ \<Rightarrow> sizes)"

text \<open>The size \<open>calculateAutoTrackSize\<close> gives a track with no measured child.\<close>

definition defaultAutoSize :: "nat \<Rightarrow> real" where
  "defaultAutoSize i = 50"

section \<open>Greedy word wrap (GeometrySnapshot.wrapText, TextNode.wrapText)\<close>

text \<open>\<open>text.split(' ')\<close>: the pieces between separators, empty pieces included.\<close>

fun splitOn :: "char \<Rightarrow> string \<Rightarrow> string list" where
  "splitOn sep [] = [] # []"
| "splitOn sep (c # cs) =
     (if c = sep then [] # splitOn sep cs
      else (case splitOn sep cs of [] \<Rightarrow> [c] # [] | w # ws \<Rightarrow> (c # w) # ws))"

text \<open>
  One turn of \<open>words.forEach\<close>, on the pair (\<open>lines\<close>, \<open>currentLine\<close>); \<open>measureText\<close>
  stands for \<open>ctx.measureText(s).width\<close>.
\<close>

definition wrapStep :: "(string \<Rightarrow> real) \<Rightarrow> real \<Rightarrow> string list \<times> string \<Rightarrow> string \<Rightarrow> string list \<times> string" where
  "wrapStep measureText maxWidth st word =
     (let currentLine = snd st;
          testLine = (if currentLine \<noteq> [] then currentLine @ '' '' @ word else word)
      in if measureText testLine > maxWidth \<and> currentLine \<noteq> []
         then (fst st @ [currentLine], word)
         else (fst st, testLine))"

definition wrapText :: "(string \<Rightarrow> real) \<Rightarrow> string \<Rightarrow> real \<Rightarrow> string list" where
  "wrapText measureText content maxWidth =
     (let st = foldl (wrapStep measureText maxWidth) ([], []) (splitOn (CHR '' '') content)
      in if snd st \<noteq> [] then fst st @ [snd st] else fst st)"

text \<open>The words of a text: its non-empty pieces between spaces, in order.\<close>

definition wordsOf :: "string \<Rightarrow> string list" where
  "wordsOf s = filter (\<lambda>w. w \<noteq> []) (splitOn (CHR '' '') s)"

text \<open>A fixed-pitch measure for examples: every character is one unit wide.\<close>

definition unitMeasure :: "string \<Rightarrow> real" where
  "unitMeasure s = real (length s)"

text \<open>The loop invariants of \<open>wrapText\<close>: the words held so far, and the fit of every line held.\<close>

definition wrapWords :: "string list \<times> string \<Rightarrow> string list" where
  "wrapWords st = concat (map wordsOf (fst st)) @ wordsOf (snd st)"

definition wrapFits :: "(string \<Rightarrow> real) \<Rightarrow> real \<Rightarrow> string list \<times> string \<Rightarrow> bool" where
  "wrapFits m maxWidth st =
     ((\<forall>l \<in> set (fst st). l \<noteq> [] \<and> (CHR '' '' \<in> set l \<longrightarrow> m l \<le> maxWidth))
      \<and> (CHR '' '' \<in> set (snd st) \<longrightarrow> m (snd st) \<le> maxWidth))"

section \<open>Gradient parsing (GeometrySnapshot in WebEngine.jsx)\<close>

text \<open>
  JavaScript values that the style and gradient code builds: numbers, strings, \<open>null\<close>,
  \<open>undefined\<close>, arrays, and objects as lists of fields in insertion order.
\<close>

datatype jsval =
    JUndefined
  | JNull
  | JNum jsnum
  | JStr string
  | JArr "jsval list"
  | JObj "(string \<times> jsval) list"

definition getProp :: "(string \<times> jsval) list \<Rightarrow> string \<Rightarrow> jsval" where
  "getProp obj k = (case map_of obj k of Some v \<Rightarrow> v | None \<Rightarrow> JUndefined)"

fun setProp :: "string \<Rightarrow> jsval \<Rightarrow> (string \<times> jsval) list \<Rightarrow> (string \<times> jsval) list" where
  "setProp k v [] = [(k, v)]"
| "setProp k v (f # fs) = (if fst f = k then (k, v) # fs else f # setProp k v fs)"

text \<open>\<open>Object.assign(target, source)\<close>.\<close>

definition objAssign :: "(string \<times> jsval) list \<Rightarrow> (string \<times> jsval) list \<Rightarrow> (string \<times> jsval) list" where
  "objAssign target source = foldl (\<lambda>t f. setProp (fst f) (snd f) t) target source"

text \<open>
  The splitting loop that \<open>parseGradient\<close>, \<open>parseLinearGradient\<close> and
  \<open>parseRadialGradient\<close> each repeat: cut at the commas of parenthesis depth 0 and trim
  the pieces. \<open>cur\<close> is \<open>substring(lastIdx, i)\<close>.
\<close>

fun splitLoop :: "int \<Rightarrow> string \<Rightarrow> string \<Rightarrow> string list" where
  "splitLoop depth cur [] = [trim cur]"
| "splitLoop depth cur (c # cs) =
     (if c = CHR ''('' then splitLoop (depth + 1) (cur @ [c]) cs
      else if c = CHR '')'' then splitLoop (depth - 1) (cur @ [c]) cs
      else if c = CHR '','' \<and> depth = 0 then trim cur # splitLoop depth [] cs
      else splitLoop depth (cur @ [c]) cs)"

definition splitTopLevel :: "string \<Rightarrow> string list" where
  "splitTopLevel s = splitLoop 0 [] s"

text \<open>\<open>parts[0]\<close>; the list of parts is never empty.\<close>

definition firstPart :: "string list \<Rightarrow> string" where
  "firstPart parts = (case parts of [] \<Rightarrow> [] | p # ps \<Rightarrow> p)"

text \<open>
  The match of \<open>/linear-gradient\((.*)\)/s\<close> (or \<open>radial\<close>): what stands between the
  first \<open>kind-gradient(\<close> and the last closing parenthesis after it.
\<close>

fun findAfter :: "string \<Rightarrow> string \<Rightarrow> string option" where
  "findAfter needle [] = (if needle = [] then Some [] else None)"
| "findAfter needle (c # cs) =
     (if startsWith (c # cs) needle then Some (drop (length needle) (c # cs))
      else findAfter needle cs)"

definition uptoLast :: "char \<Rightarrow> string \<Rightarrow> string option" where
  "uptoLast ch s =
     (if ch \<in> set s then Some (rev (tl (dropWhile (\<lambda>c. c \<noteq> ch) (rev s)))) else None)"

definition matchGradient :: "string \<Rightarrow> string \<Rightarrow> string option" where
  "matchGradient kind s =
     (case findAfter (kind @ ''-gradient('') s of
        None \<Rightarrow> None
      | Some rest \<Rightarrow> uptoLast (CHR '')'') rest)"

text \<open>
  The colour pattern of \<open>parseColorStops\<close>,
  \<open>/(#[a-fA-F0-0]{3,8}|rgba?\(.*?\)|[a-zA-Z]+)/\<close>: the alternatives tried in order at
  one position, then the leftmost position with a match.
\<close>

definition isAlpha :: "char \<Rightarrow> bool" where
  "isAlpha c = (c \<in> set ''abcdefghijklmnopqrstuvwxyzABCDEFGHIJKLMNOPQRSTUVWXYZ'')"

definition isLineTerminator :: "char \<Rightarrow> bool" where
  "isLineTerminator c = (c = CHR 0x0A \<or> c = CHR 0x0D)"

definition matchHashRun :: "(char \<Rightarrow> bool) \<Rightarrow> nat \<Rightarrow> nat \<Rightarrow> string \<Rightarrow> string option" where
  "matchHashRun ok lo hi s =
     (case s of
        [] \<Rightarrow> None
      | c # r \<Rightarrow>
          if c = CHR ''#'' \<and> lo \<le> length (takeWhile ok r)
          then Some (c # take hi (takeWhile ok r)) else None)"

definition matchRgb :: "string \<Rightarrow> string option" where
  "matchRgb s =
     (if startsWith s ''rgb'' then
        (let r = drop 3 s;
             a = (if startsWith r ''a'' then ''a'' else []);
             r' = drop (length a) r
         in case r' of
              [] \<Rightarrow> None
            | c # body \<Rightarrow>
                if c = CHR ''(''
                   \<and> CHR '')'' \<in> set body
                   \<and> \<not> (\<exists>x \<in> set (takeWhile (\<lambda>x. x \<noteq> CHR '')'') body). isLineTerminator x)
                then Some (''rgb'' @ a @ ''('' @ takeWhile (\<lambda>x. x \<noteq> CHR '')'') body @ '')'')
                else None)
      else None)"

definition matchLetters :: "string \<Rightarrow> string option" where
  "matchLetters s = (if takeWhile isAlpha s = [] then None else Some (takeWhile isAlpha s))"

definition orElse :: "'a option \<Rightarrow> 'a option \<Rightarrow> 'a option" where
  "orElse a b = (case a of Some v \<Rightarrow> Some v | None \<Rightarrow> b)"

definition isHexish :: "char \<Rightarrow> bool" where
  "isHexish c = (c \<in> set ''abcdefABCDEF0'')"

definition colorAt :: "string \<Rightarrow> string option" where
  "colorAt s = orElse (matchHashRun isHexish 3 8 s) (orElse (matchRgb s) (matchLetters s))"

fun leftmost :: "(string \<Rightarrow> 'a option) \<Rightarrow> string \<Rightarrow> 'a option" where
  "leftmost m [] = None"
| "leftmost m (c # cs) = orElse (m (c # cs)) (leftmost m cs)"

text \<open>\<open>/(\d+)%/\<close>: a run of digits followed by a percent sign; the digits are captured.\<close>

definition percentAt :: "string \<Rightarrow> string option" where
  "percentAt s =
     (if takeWhile isDigit s \<noteq> [] \<and> startsWith (dropWhile isDigit s) ''%''
      then Some (takeWhile isDigit s) else None)"

definition jsDivBy :: "jsnum \<Rightarrow> real \<Rightarrow> jsnum" where
  "jsDivBy a d = (case a of NaN \<Rightarrow> NaN | Num r \<Rightarrow> Num (r / d))"

text \<open>One turn of the loop of \<open>parseColorStops(parts, startIdx)\<close>, at index \<open>i\<close>.\<close>

definition colorStop :: "string list \<Rightarrow> nat \<Rightarrow> nat \<Rightarrow> jsval list" where
  "colorStop parts startIdx i =
     (case leftmost colorAt (parts ! i) of
        None \<Rightarrow> []
      | Some color \<Rightarrow>
          [JObj [(''color'', JStr color),
                 (''position'',
                  JNum (case leftmost percentAt (parts ! i) of
                          Some ds \<Rightarrow> jsDivBy (parseFloat ds) 100
                        | None \<Rightarrow>
                            Num (real (i - startIdx)
                                 / numOr (Num (real_of_int (int (length parts) - int startIdx - 1))) 1)))]])"

definition parseColorStops :: "string list \<Rightarrow> nat \<Rightarrow> jsval" where
  "parseColorStops parts startIdx =
     JArr (concat (map (colorStop parts startIdx) [startIdx ..< length parts]))"

definition directionAngle :: "string \<Rightarrow> real" where
  "directionAngle direction =
     (let angle = 180;
          angle = (if strIncludes direction ''right'' then 90 else angle);
          angle = (if strIncludes direction ''left'' then 270 else angle);
          angle = (if strIncludes direction ''top'' then 0 else angle);
          angle = (if strIncludes direction ''bottom'' then 180 else angle)
      in angle)"

definition parseLinearGradient :: "string \<Rightarrow> jsval" where
  "parseLinearGradient content =
     (let parts = splitTopLevel content;
          (angle, startIdx) =
            (if strIncludes (firstPart parts) ''deg'' then (parseFloat (firstPart parts), 1)
             else if strIncludes (firstPart parts) ''to ''
             then (Num (directionAngle (toLowerCase (firstPart parts))), 1)
             else (Num 180, 0))
      in JObj [(''type'', JStr ''linear''), (''angle'', JNum angle),
               (''stops'', parseColorStops parts startIdx)])"

definition parseRadialGradient :: "string \<Rightarrow> jsval" where
  "parseRadialGradient content =
     (let parts = splitTopLevel content;
          hasShape = (strIncludes (firstPart parts) ''circle''
                      \<or> strIncludes (firstPart parts) ''ellipse''
                      \<or> strIncludes (firstPart parts) ''at '')
      in JObj [(''type'', JStr ''radial''),
               (''stops'', parseColorStops parts (if hasShape then 1 else 0))])"

definition parseGradient :: "string \<Rightarrow> jsval" where
  "parseGradient bgImage =
     (if bgImage = [] \<or> bgImage = ''none'' then JNull
      else (let cleanBg = firstPart (splitTopLevel bgImage)
            in case matchGradient ''linear'' cleanBg of
                 Some content \<Rightarrow> parseLinearGradient (trim content)
               | None \<Rightarrow>
                   (case matchGradient ''radial'' cleanBg of
                      Some content \<Rightarrow> parseRadialGradient (trim content)
                    | None \<Rightarrow> JNull)))"

section \<open>Style resolution: the worker and the local path\<close>

text \<open>
  A raw style snapshot (\<open>extractRawStyles\<close>) and a computed style are objects whose
  properties are strings; \<open>None\<close> is a property that reads \<open>undefined\<close>.
\<close>

type_synonym rawStyle = "string \<Rightarrow> string option"

definition optStr :: "string option \<Rightarrow> jsval" where
  "optStr v = (case v of None \<Rightarrow> JUndefined | Some s \<Rightarrow> JStr s)"

definition parseFloatOpt :: "string option \<Rightarrow> jsnum" where
  "parseFloatOpt v = (case v of None \<Rightarrow> NaN | Some s \<Rightarrow> parseFloat s)"

definition parseIntOpt :: "string option \<Rightarrow> jsnum" where
  "parseIntOpt v = (case v of None \<Rightarrow> NaN | Some s \<Rightarrow> parseInt s)"

text \<open>\<open>a || b\<close> on strings and on numbers, and \<open>v !== 'none' ? v : null\<close>.\<close>

definition strOr :: "string option \<Rightarrow> string option \<Rightarrow> jsval" where
  "strOr a b = (case a of None \<Rightarrow> optStr b | Some s \<Rightarrow> if s = [] then optStr b else JStr s)"

definition jsOr :: "jsnum \<Rightarrow> jsnum \<Rightarrow> jsnum" where
  "jsOr a b = (case a of NaN \<Rightarrow> b | Num r \<Rightarrow> if r = 0 then b else Num r)"

definition unlessNone :: "string option \<Rightarrow> jsval" where
  "unlessNone v = (if v \<noteq> Some ''none'' then optStr v else JNull)"

text \<open>\<open>img && img !== 'none' ? parse(img) : null\<close>.\<close>

definition gradientOf :: "(string \<Rightarrow> jsval) \<Rightarrow> string option \<Rightarrow> jsval" where
  "gradientOf parse v =
     (case v of None \<Rightarrow> JNull | Some s \<Rightarrow> if s = [] \<or> s = ''none'' then JNull else parse s)"

definition paddingOf :: "rawStyle \<Rightarrow> jsval" where
  "paddingOf raw =
     JObj [(''top'', JNum (Num (numOr (parseFloatOpt (raw ''paddingTop'')) 0))),
           (''right'', JNum (Num (numOr (parseFloatOpt (raw ''paddingRight'')) 0))),
           (''bottom'', JNum (Num (numOr (parseFloatOpt (raw ''paddingBottom'')) 0))),
           (''left'', JNum (Num (numOr (parseFloatOpt (raw ''paddingLeft'')) 0)))]"

subsection \<open>public/workers/styleWorker.js\<close>

text \<open>\<open>(r << 16) | (g << 8) | b\<close> on 32-bit integers; \<open>NaN\<close> converts to 0.\<close>

definition toInt32 :: "jsnum \<Rightarrow> 32 word" where
  "toInt32 v = (case v of NaN \<Rightarrow> 0 | Num r \<Rightarrow> word_of_int (if r < 0 then \<lceil>r\<rceil> else \<lfloor>r\<rfloor>))"

definition packRgb :: "jsnum \<Rightarrow> jsnum \<Rightarrow> jsnum \<Rightarrow> real" where
  "packRgb r g b = real_of_int (sint (push_bit 16 (toInt32 r) OR push_bit 8 (toInt32 g) OR toInt32 b))"

text \<open>\<open>cssColor.match(/[\d.]+/g)\<close>: the maximal runs of digits and dots.\<close>

fun numberRuns :: "string \<Rightarrow> string \<Rightarrow> string list" where
  "numberRuns cur [] = (if cur = [] then [] else [cur])"
| "numberRuns cur (c # cs) =
     (if isDigit c \<or> c = CHR ''.'' then numberRuns (cur @ [c]) cs
      else if cur = [] then numberRuns [] cs
      else cur # numberRuns [] cs)"

definition nthOpt :: "'a list \<Rightarrow> nat \<Rightarrow> 'a option" where
  "nthOpt xs i = (if i < length xs then Some (xs ! i) else None)"

definition namedColors :: "(string \<times> real) list" where
  "namedColors =
     [(''white'', 0xffffff), (''black'', 0x000000), (''red'', 0xff0000), (''green'', 0x008000),
      (''blue'', 0x0000ff), (''yellow'', 0xffff00), (''orange'', 0xffa500), (''gray'', 0x808080),
      (''grey'', 0x808080), (''purple'', 0x800080), (''pink'', 0xffc0cb), (''transparent'', 0xffffff)]"

text \<open>
  \<open>parseColor(cssColor)\<close> of the worker, returning the pair (\<open>hex\<close>, \<open>alpha\<close>). Properties
  that \<open>namedColors\<close> inherits from \<open>Object.prototype\<close> are not modelled.
\<close>

definition workerParseColor :: "string \<Rightarrow> jsnum \<times> jsnum" where
  "workerParseColor cssColor =
     (if cssColor = [] \<or> cssColor = ''transparent'' then (Num 0xffffff, Num 0)
      else if startsWith cssColor ''#'' then
        (let hex = drop 1 cssColor
         in if length hex = 3 then (parseIntRadix True (concat (map (\<lambda>c. [c, c]) hex)), Num 1)
            else if length hex = 8
            then (parseIntRadix True (take 6 hex), jsDivBy (parseIntRadix True (drop 6 hex)) 255)
            else (parseIntRadix True hex, Num 1))
      else
        (let vals = (if startsWith cssColor ''rgb'' then numberRuns [] cssColor else [])
         in if vals \<noteq> [] then
              (Num (packRgb (parseIntOpt (nthOpt vals 0)) (parseIntOpt (nthOpt vals 1))
                            (parseIntOpt (nthOpt vals 2))),
               (case nthOpt vals 3 of None \<Rightarrow> Num 1 | Some a \<Rightarrow> parseFloat a))
            else
              (case map_of namedColors (toLowerCase cssColor) of
                 Some c \<Rightarrow> (Num c, if toLowerCase cssColor = ''transparent'' then Num 0 else Num 1)
               | None \<Rightarrow> (Num 0xcccccc, Num 1))))"

text \<open>The worker's colour pattern, \<open>/(rgba?\(.*?\)|#[0-9a-fA-F]+|[a-zA-Z]+)/\<close>.\<close>

definition workerColorAt :: "string \<Rightarrow> string option" where
  "workerColorAt s =
     orElse (matchRgb s) (orElse (matchHashRun isHexDigit 1 (length s) s) (matchLetters s))"

text \<open>\<open>part.replace(m, '')\<close>: the first occurrence of a non-empty string is removed.\<close>

fun removeFirst :: "string \<Rightarrow> string \<Rightarrow> string" where
  "removeFirst m [] = []"
| "removeFirst m (c # cs) =
     (if startsWith (c # cs) m then drop (length m) (c # cs) else c # removeFirst m cs)"

text \<open>
  \<open>(i - startIdx) / (parts.length - startIdx - 1)\<close>; the numerator is 0 whenever the
  denominator is, and \<open>0 / 0\<close> is \<open>NaN\<close>.
\<close>

definition evenOffset :: "nat \<Rightarrow> nat \<Rightarrow> nat \<Rightarrow> jsnum" where
  "evenOffset len startIdx i =
     (if int len - int startIdx - 1 = 0 then NaN
      else Num (real (i - startIdx) / real_of_int (int len - int startIdx - 1)))"

definition workerColorStop :: "string list \<Rightarrow> nat \<Rightarrow> nat \<Rightarrow> jsval list" where
  "workerColorStop parts startIdx i =
     (case leftmost workerColorAt (parts ! i) of
        None \<Rightarrow> []
      | Some m \<Rightarrow>
          [JObj [(''color'', JNum (fst (workerParseColor m))),
                 (''alpha'', JNum (snd (workerParseColor m))),
                 (''offset'',
                  JNum (case leftmost percentAt (trim (removeFirst m (parts ! i))) of
                          Some ds \<Rightarrow> jsDivBy (parseFloat ds) 100
                        | None \<Rightarrow> evenOffset (length parts) startIdx i))]])"

definition workerParseColorStops :: "string list \<Rightarrow> nat \<Rightarrow> jsval" where
  "workerParseColorStops parts startIdx =
     JArr (concat (map (workerColorStop parts startIdx) [startIdx ..< length parts]))"

definition workerDirectionAngle :: "string \<Rightarrow> real" where
  "workerDirectionAngle dir =
     (let angle = 180;
          angle = (if strIncludes dir ''bottom'' then 180 else angle);
          angle = (if strIncludes dir ''top'' then 0 else angle);
          angle = (if strIncludes dir ''right'' then 90 else angle);
          angle = (if strIncludes dir ''left'' then 270 else angle)
      in angle)"

definition workerParseLinearGradient :: "string \<Rightarrow> jsval" where
  "workerParseLinearGradient content =
     (let parts = splitTopLevel content;
          (angle, startIdx) =
            (if strIncludes (firstPart parts) ''deg''
             then (numOr (parseFloat (firstPart parts)) 180, 1)
             else if strIncludes (firstPart parts) ''to ''
             then (workerDirectionAngle (toLowerCase (firstPart parts)), 1)
             else (180, 0))
      in JObj [(''type'', JStr ''linear''), (''angle'', JNum (Num angle)),
               (''stops'', workerParseColorStops parts startIdx)])"

definition workerParseRadialGradient :: "string \<Rightarrow> jsval" where
  "workerParseRadialGradient content =
     JObj [(''type'', JStr ''radial''), (''stops'', workerParseColorStops (splitTopLevel content) 0)]"

definition workerParseGradient :: "string \<Rightarrow> jsval" where
  "workerParseGradient bgImage =
     (if bgImage = [] \<or> bgImage = ''none'' then JNull
      else (let cleanBg = firstPart (splitTopLevel bgImage)
            in case matchGradient ''linear'' cleanBg of
                 Some content \<Rightarrow> workerParseLinearGradient (trim content)
               | None \<Rightarrow>
                   (case matchGradient ''radial'' cleanBg of
                      Some content \<Rightarrow> workerParseRadialGradient (trim content)
                    | None \<Rightarrow> JNull)))"

text \<open>The object the \<open>PARSE_STYLES\<close> handler builds for one raw style.\<close>

definition workerFragment :: "rawStyle \<Rightarrow> (string \<times> jsval) list" where
  "workerFragment raw =
     [(''backgroundColor'', optStr (raw ''backgroundColor'')),
      (''backgroundImage'', optStr (raw ''backgroundImage'')),
      (''borderWidth'', JNum (Num (numOr (parseFloatOpt (raw ''borderTopWidth'')) 0))),
      (''borderRightWidth'', JNum (Num (numOr (parseFloatOpt (raw ''borderRightWidth'')) 0))),
      (''borderBottomWidth'', JNum (Num (numOr (parseFloatOpt (raw ''borderBottomWidth'')) 0))),
      (''borderLeftWidth'', JNum (Num (numOr (parseFloatOpt (raw ''borderLeftWidth'')) 0))),
      (''borderColor'', strOr (raw ''borderTopColor'') (raw ''borderColor'')),
      (''borderRightColor'', optStr (raw ''borderRightColor'')),
      (''borderBottomColor'', optStr (raw ''borderBottomColor'')),
      (''borderLeftColor'', optStr (raw ''borderLeftColor'')),
      (''borderStyle'', strOr (raw ''borderTopStyle'') (raw ''borderStyle'')),
      (''borderRadius'', optStr (raw ''borderRadius'')),
      (''color'', optStr (raw ''color'')),
      (''fontSize'', JNum (Num (numOr (parseFloatOpt (raw ''fontSize'')) 12))),
      (''fontFamily'', optStr (raw ''fontFamily'')),
      (''fontWeight'', optStr (raw ''fontWeight'')),
      (''fontStyle'', optStr (raw ''fontStyle'')),
      (''textAlign'', optStr (raw ''textAlign'')),
      (''justifyContent'', optStr (raw ''justifyContent'')),
      (''alignItems'', optStr (raw ''alignItems'')),
      (''lineHeight'', JNum (jsOr (parseFloatOpt (raw ''lineHeight''))
                                  (jsMul (parseFloatOpt (raw ''fontSize'')) (Num (12 / 10))))),
      (''letterSpacing'', JNum (Num (numOr (parseFloatOpt (raw ''letterSpacing'')) 0))),
      (''padding'', paddingOf raw),
      (''opacity'', JNum (Num (numOr (parseFloatOpt (raw ''opacity'')) 1))),
      (''boxShadow'', unlessNone (raw ''boxShadow'')),
      (''transform'', unlessNone (raw ''transform'')),
      (''zIndex'', JNum (if raw ''zIndex'' \<noteq> Some ''auto'' then parseIntOpt (raw ''zIndex'') else Num 0)),
      (''overflow'', optStr (raw ''overflow'')),
      (''visibility'', optStr (raw ''visibility'')),
      (''whiteSpace'', optStr (raw ''whiteSpace'')),
      (''wordBreak'', optStr (raw ''wordBreak'')),
      (''gradient'', gradientOf workerParseGradient (raw ''backgroundImage''))]"

definition workerProcessBatch :: "rawStyle list \<Rightarrow> (string \<times> jsval) list list" where
  "workerProcessBatch rawStylesBatch = map workerFragment rawStylesBatch"

subsection \<open>GeometrySnapshot.processBatchLocally (WebEngine.jsx)\<close>

text \<open>The object literal that \<open>processBatchLocally\<close> assigns to \<open>node.styles\<close>.\<close>

definition localFields :: "rawStyle \<Rightarrow> (string \<times> jsval) list" where
  "localFields raw =
     [(''backgroundColor'', optStr (raw ''backgroundColor'')),
      (''backgroundImage'', optStr (raw ''backgroundImage'')),
      (''borderWidth'', JNum (Num (numOr (parseFloatOpt (raw ''borderTopWidth'')) 0))),
      (''borderRightWidth'', JNum (Num (numOr (parseFloatOpt (raw ''borderRightWidth'')) 0))),
      (''borderBottomWidth'', JNum (Num (numOr (parseFloatOpt (raw ''borderBottomWidth'')) 0))),
      (''borderLeftWidth'', JNum (Num (numOr (parseFloatOpt (raw ''borderLeftWidth'')) 0))),
      (''borderColor'', optStr (raw ''borderTopColor'')),
      (''borderRightColor'', optStr (raw ''borderRightColor'')),
      (''borderBottomColor'', optStr (raw ''borderBottomColor'')),
      (''borderLeftColor'', optStr (raw ''borderLeftColor'')),
      (''borderStyle'', optStr (raw ''borderTopStyle'')),
      (''borderRadius'', optStr (raw ''borderRadius'')),
      (''color'', optStr (raw ''color'')),
      (''display'', optStr (raw ''display'')),
      (''justifyContent'', optStr (raw ''justifyContent'')),
      (''alignItems'', optStr (raw ''alignItems'')),
      (''fontSize'', JNum (Num (numOr (parseFloatOpt (raw ''fontSize'')) 12))),
      (''fontFamily'', optStr (raw ''fontFamily'')),
      (''fontWeight'', optStr (raw ''fontWeight'')),
      (''fontStyle'', optStr (raw ''fontStyle'')),
      (''textAlign'', optStr (raw ''textAlign'')),
      (''lineHeight'', JNum (jsOr (parseFloatOpt (raw ''lineHeight''))
                                  (jsMul (parseFloatOpt (raw ''fontSize'')) (Num (12 / 10))))),
      (''padding'', paddingOf raw),
      (''boxShadow'', unlessNone (raw ''boxShadow'')),
      (''transform'', unlessNone (raw ''transform'')),
      (''letterSpacing'', JNum (Num (numOr (parseFloatOpt (raw ''letterSpacing'')) 0))),
      (''whiteSpace'', optStr (raw ''whiteSpace'')),
      (''wordBreak'', optStr (raw ''wordBreak''))]"

text \<open>
  The fragment of the local path: the literal, and \<open>gradient\<close> when the background image
  parses to a gradient.
\<close>

definition localFragment :: "rawStyle \<Rightarrow> (string \<times> jsval) list" where
  "localFragment raw =
     localFields raw @
     (if gradientOf parseGradient (raw ''backgroundImage'') \<noteq> JNull
      then [(''gradient'', gradientOf parseGradient (raw ''backgroundImage''))] else [])"

definition localProcessBatch :: "rawStyle list \<Rightarrow> (string \<times> jsval) list list" where
  "localProcessBatch rawStyles = map localFragment rawStyles"

text \<open>
  Both paths end in \<open>Object.assign(batch.nodes[i].styles, fragment)\<close>, over the nodes of the
  batch in order.
\<close>

definition applyBatch :: "(string \<times> jsval) list list \<Rightarrow> (string \<times> jsval) list list \<Rightarrow> (string \<times> jsval) list list" where
  "applyBatch nodeStyles fragments = map2 objAssign nodeStyles fragments"

text \<open>\<open>extractRawStyles\<close>: the properties copied from the computed style.\<close>

definition rawKeys :: "string list" where
  "rawKeys =
     [''backgroundColor'', ''backgroundImage'', ''borderTopWidth'', ''borderTopColor'',
      ''borderTopStyle'', ''borderRightWidth'', ''borderRightColor'', ''borderBottomWidth'',
      ''borderBottomColor'', ''borderLeftWidth'', ''borderLeftColor'', ''borderRadius'', ''color'',
      ''fontSize'', ''fontFamily'', ''fontWeight'', ''fontStyle'', ''textAlign'', ''justifyContent'',
      ''alignItems'', ''lineHeight'', ''letterSpacing'', ''paddingTop'', ''paddingRight'',
      ''paddingBottom'', ''paddingLeft'', ''opacity'', ''boxShadow'', ''transform'', ''zIndex'',
      ''overflow'', ''visibility'', ''whiteSpace'', ''wordBreak'']"

definition extractRawStyles :: "rawStyle \<Rightarrow> rawStyle" where
  "extractRawStyles computed k = (if k \<in> set rawKeys then computed k else None)"

text \<open>A computed style for examples: a plain block with a two-colour gradient.\<close>

definition gradientBox :: rawStyle where
  "gradientBox = map_of
     [(''backgroundColor'', ''rgba(0, 0, 0, 0)''),
      (''backgroundImage'', ''linear-gradient(red, blue)''),
      (''borderTopWidth'', ''0px''), (''borderTopColor'', ''rgb(0, 0, 0)''), (''borderTopStyle'', ''none''),
      (''borderRightWidth'', ''0px''), (''borderRightColor'', ''rgb(0, 0, 0)''),
      (''borderBottomWidth'', ''0px''), (''borderBottomColor'', ''rgb(0, 0, 0)''),
      (''borderLeftWidth'', ''0px''), (''borderLeftColor'', ''rgb(0, 0, 0)''),
      (''borderRadius'', ''0px''), (''color'', ''rgb(0, 0, 0)''),
      (''fontSize'', ''16px''), (''fontFamily'', ''Arial''), (''fontWeight'', ''400''),
      (''fontStyle'', ''normal''), (''textAlign'', ''start''), (''justifyContent'', ''normal''),
      (''alignItems'', ''normal''), (''lineHeight'', ''normal''), (''letterSpacing'', ''normal''),
      (''paddingTop'', ''0px''), (''paddingRight'', ''0px''), (''paddingBottom'', ''0px''),
      (''paddingLeft'', ''0px''), (''opacity'', ''1''), (''boxShadow'', ''none''),
      (''transform'', ''none''), (''zIndex'', ''auto''), (''overflow'', ''visible''),
      (''visibility'', ''visible''), (''whiteSpace'', ''normal''), (''wordBreak'', ''normal''),
      (''display'', ''block'')]"

section \<open>Geometry capture (GeometrySnapshot.capture, captureNode)\<close>

text \<open>
  The visual tree as the capturer reads it: per element its tag, bounding rectangle,
  computed style, the \<open>src\<close> and \<open>href\<close> attributes, and its child nodes in order, each a
  text node (\<open>Inl\<close>) or an element (\<open>Inr\<close>). \<open>eid\<close> stands for the identity of the
  element object, which \<open>processedNodes\<close> holds.
\<close>

record domRect =
  rleft :: real
  rtop :: real
  rwidth :: real
  rheight :: real

record elemAttrs =
  eid :: nat
  tagName :: string
  boundingRect :: domRect
  computedStyle :: rawStyle
  imgSrc :: string
  hrefAttr :: "string option"

datatype element = Element elemAttrs "(string + element) list"

fun attrsOf :: "element \<Rightarrow> elemAttrs" where
  "attrsOf (Element a ns) = a"

fun childNodes :: "element \<Rightarrow> (string + element) list" where
  "childNodes (Element a ns) = ns"

definition elementsOf :: "(string + element) list \<Rightarrow> element list" where
  "elementsOf ns = concat (map (\<lambda>n. case n of Inl t \<Rightarrow> [] | Inr c \<Rightarrow> [c]) ns)"

definition textsOf :: "(string + element) list \<Rightarrow> string list" where
  "textsOf ns = concat (map (\<lambda>n. case n of Inl t \<Rightarrow> [t] | Inr c \<Rightarrow> []) ns)"

text \<open>\<open>element.children\<close>.\<close>

definition children :: "element \<Rightarrow> element list" where
  "children e = elementsOf (childNodes e)"

lemma size_elementsOf [termination_simp]:
  "c \<in> set (elementsOf ns) \<Longrightarrow> size c < Suc (size_list (size_sum (\<lambda>t. 0) size) ns)"
  by (induction ns) (auto simp add: elementsOf_def split: sum.splits)

lemma size_children [termination_simp]: "c \<in> set (children e) \<Longrightarrow> size c < size e"
  by (cases e) (auto simp add: children_def dest: size_elementsOf)

lemma size_childNodes [termination_simp]: "Inr c \<in> set (childNodes e) \<Longrightarrow> size c < size e"
proof -
  assume "Inr c \<in> set (childNodes e)"
  then have "c \<in> set (children e)"
    by (auto simp add: children_def elementsOf_def intro!: bexI [where x = "Inr c"])
  then show ?thesis by (rule size_children)
qed

text \<open>\<open>element.textContent\<close>: the text of all descendant text nodes, in document order.\<close>

function textContent :: "element \<Rightarrow> string" where
  "textContent e =
     concat (map (\<lambda>n. case n of Inl t \<Rightarrow> t | Inr c \<Rightarrow> textContent c) (childNodes e))"
  by pat_completeness auto
termination
  by (relation "measure size") (auto simp add: size_childNodes)

function subtreeIds :: "element \<Rightarrow> nat list" where
  "subtreeIds e = eid (attrsOf e) # concat (map subtreeIds (children e))"
  by pat_completeness auto
termination
  by (relation "measure size") (auto simp add: size_children)

function descendants :: "element \<Rightarrow> element list" where
  "descendants e = concat (map (\<lambda>c. c # descendants c) (children e))"
  by pat_completeness auto
termination
  by (relation "measure size") (auto simp add: size_children)

text \<open>\<open>markProcessedRecursive\<close>.\<close>

definition markProcessedRecursive :: "element \<Rightarrow> nat set \<Rightarrow> nat set" where
  "markProcessedRecursive e processed = processed \<union> set (subtreeIds e)"

definition orEmpty :: "string option \<Rightarrow> string" where
  "orEmpty v = (case v of None \<Rightarrow> [] | Some s \<Rightarrow> s)"

text \<open>\<open>v && v !== 'none'\<close> and \<open>v !== s\<close> on a style property.\<close>

definition setAndNotNone :: "string option \<Rightarrow> bool" where
  "setAndNotNone v = (case v of None \<Rightarrow> False | Some s \<Rightarrow> s \<noteq> [] \<and> s \<noteq> ''none'')"

definition hasVisibleBoxStyle :: "rawStyle \<Rightarrow> bool" where
  "hasVisibleBoxStyle computed =
     ((computed ''backgroundColor'' \<noteq> Some ''rgba(0, 0, 0, 0)''
         \<and> computed ''backgroundColor'' \<noteq> Some ''transparent'')
      \<or> setAndNotNone (computed ''backgroundImage'')
      \<or> (jsGt (parseFloatOpt (computed ''borderTopWidth'')) 0
           \<and> computed ''borderTopStyle'' \<noteq> Some ''none'')
      \<or> setAndNotNone (computed ''boxShadow''))"

definition textTags :: "string list" where
  "textTags = [''SPAN'', ''P'', ''H1'', ''H2'', ''H3'', ''H4'', ''H5'', ''H6'',
               ''STRONG'', ''EM'', ''B'', ''I'', ''LABEL'', ''A'', ''LI'']"

definition blockSelectors :: "string list" where
  "blockSelectors = [''div'', ''section'', ''article'', ''main'', ''aside'', ''header'', ''footer'', ''nav'']"

text \<open>\<open>getNodeType\<close> of WebEngine.jsx.\<close>

definition getNodeType :: "element \<Rightarrow> string" where
  "getNodeType e =
     (let computed = computedStyle (attrsOf e);
          tag = tagName (attrsOf e)
      in if tag = ''IMG'' then ''image''
         else if hasVisibleBoxStyle computed then ''box''
         else if tag \<in> set textTags \<and> trim (textContent e) \<noteq> []
                 \<and> (\<forall>c \<in> set (children e). tagName (attrsOf c) \<in> set [''BR'', ''WBR''])
              then ''text''
         else if (\<exists>t \<in> set (textsOf (childNodes e)). trim t \<noteq> [])
                 \<and> \<not> (\<exists>d \<in> set (descendants e). toLowerCase (tagName (attrsOf d)) \<in> set blockSelectors)
              then ''text''
         else ''box'')"

text \<open>\<open>getNodeType\<close> of CanvasEngine.jsx.\<close>

definition canvasGetNodeType :: "element \<Rightarrow> string" where
  "canvasGetNodeType e =
     (let computed = computedStyle (attrsOf e);
          tag = tagName (attrsOf e)
      in if tag = ''IMG'' then ''image''
         else if hasVisibleBoxStyle computed then ''box''
         else if tag \<in> set textTags \<and> trim (textContent e) \<noteq> []
                 \<and> (\<forall>c \<in> set (children e).
                       tagName (attrsOf c) \<in> set [''BR'', ''WBR'', ''SPAN'', ''STRONG'', ''EM'', ''B'', ''I''])
              then ''text''
         else ''box'')"

text \<open>
  \<open>extractStyles\<close> of WebEngine.jsx on its direct path (no batch context, no gradient
  worker): the three fields set first, the gradient, then the object literal assigned.
\<close>

definition firstStyles :: "rawStyle \<Rightarrow> (string \<times> jsval) list" where
  "firstStyles computed =
     [(''opacity'', JNum (Num (numOr (parseFloatOpt (computed ''opacity'')) 1))),
      (''zIndex'', JNum (if computed ''zIndex'' \<noteq> Some ''auto''
                         then parseIntOpt (computed ''zIndex'') else Num 0)),
      (''display'', optStr (computed ''display''))]"

definition directFields :: "rawStyle \<Rightarrow> (string \<times> jsval) list" where
  "directFields computed =
     [(''backgroundColor'', optStr (computed ''backgroundColor'')),
      (''backgroundImage'', optStr (computed ''backgroundImage'')),
      (''borderWidth'', JNum (Num (numOr (parseFloatOpt (computed ''borderTopWidth'')) 0))),
      (''borderRightWidth'', JNum (Num (numOr (parseFloatOpt (computed ''borderRightWidth'')) 0))),
      (''borderBottomWidth'', JNum (Num (numOr (parseFloatOpt (computed ''borderBottomWidth'')) 0))),
      (''borderLeftWidth'', JNum (Num (numOr (parseFloatOpt (computed ''borderLeftWidth'')) 0))),
      (''borderColor'', strOr (computed ''borderTopColor'') (computed ''borderColor'')),
      (''borderRightColor'', optStr (computed ''borderRightColor'')),
      (''borderBottomColor'', optStr (computed ''borderBottomColor'')),
      (''borderLeftColor'', optStr (computed ''borderLeftColor'')),
      (''borderStyle'', strOr (computed ''borderTopStyle'') (computed ''borderStyle'')),
      (''borderRadius'', optStr (computed ''borderRadius'')),
      (''color'', optStr (computed ''color'')),
      (''display'', optStr (computed ''display'')),
      (''justifyContent'', optStr (computed ''justifyContent'')),
      (''alignItems'', optStr (computed ''alignItems'')),
      (''fontSize'', JNum (Num (numOr (parseFloatOpt (computed ''fontSize'')) 12))),
      (''fontFamily'', optStr (computed ''fontFamily'')),
      (''fontWeight'', optStr (computed ''fontWeight'')),
      (''fontStyle'', optStr (computed ''fontStyle'')),
      (''textAlign'', optStr (computed ''textAlign'')),
      (''lineHeight'', JNum (jsOr (parseFloatOpt (computed ''lineHeight''))
                                  (jsMul (parseFloatOpt (computed ''fontSize'')) (Num (12 / 10))))),
      (''padding'', paddingOf computed),
      (''boxShadow'', unlessNone (computed ''boxShadow'')),
      (''transform'', unlessNone (computed ''transform'')),
      (''letterSpacing'', JNum (Num (numOr (parseFloatOpt (computed ''letterSpacing'')) 0))),
      (''whiteSpace'', optStr (computed ''whiteSpace'')),
      (''wordBreak'', optStr (computed ''wordBreak'')),
      (''backgroundClip'', strOr (computed ''backgroundClip'') (computed ''webkitBackgroundClip'')),
      (''webkitTextFillColor'', optStr (computed ''webkitTextFillColor'')),
      (''listStyleType'', optStr (computed ''listStyleType''))]"

definition extractStyles :: "rawStyle \<Rightarrow> (string \<times> jsval) list" where
  "extractStyles computed =
     objAssign
       (firstStyles computed @
        (if gradientOf parseGradient (computed ''backgroundImage'') \<noteq> JNull
         then [(''gradient'', gradientOf parseGradient (computed ''backgroundImage''))] else []))
       (directFields computed)"

text \<open>
  The styles of a CanvasEngine.jsx node once \<open>capture\<close> has run \<open>processStyleFromRaw\<close> on
  it (no workers): the fields set in \<open>captureNode\<close>, then the object literal assigned.
  \<open>raw.borderRadius.includes('%')\<close> needs a string, which \<open>getComputedStyle\<close> gives for
  every property; a style that lacks the property (where the source raises a \<open>TypeError\<close>)
  is read here as one with the empty string.
\<close>

definition canvasFields :: "rawStyle \<Rightarrow> (string \<times> jsval) list" where
  "canvasFields raw =
     [(''backgroundColor'', optStr (raw ''backgroundColor'')),
      (''backgroundImage'', optStr (raw ''backgroundImage'')),
      (''borderWidth'', JNum (Num (numOr (parseFloatOpt (raw ''borderTopWidth'')) 0))),
      (''borderColor'', optStr (raw ''borderTopColor'')),
      (''borderStyle'', optStr (raw ''borderTopStyle'')),
      (''borderRadius'', if strIncludes (orEmpty (raw ''borderRadius'')) ''%''
                         then optStr (raw ''borderRadius'')
                         else JNum (Num (numOr (parseFloatOpt (raw ''borderRadius'')) 0))),
      (''color'', optStr (raw ''color'')),
      (''fontSize'', JNum (Num (numOr (parseFloatOpt (raw ''fontSize'')) 12))),
      (''fontFamily'', optStr (raw ''fontFamily'')),
      (''fontWeight'', optStr (raw ''fontWeight'')),
      (''fontStyle'', optStr (raw ''fontStyle'')),
      (''textAlign'', optStr (raw ''textAlign'')),
      (''lineHeight'', JNum (jsOr (parseFloatOpt (raw ''lineHeight''))
                                  (jsMul (parseFloatOpt (raw ''fontSize'')) (Num (12 / 10))))),
      (''padding'', paddingOf raw),
      (''boxShadow'', unlessNone (raw ''boxShadow'')),
      (''transform'', unlessNone (raw ''transform'')),
      (''letterSpacing'', JNum (Num (numOr (parseFloatOpt (raw ''letterSpacing'')) 0))),
      (''whiteSpace'', optStr (raw ''whiteSpace'')),
      (''wordBreak'', optStr (raw ''wordBreak''))]"

definition canvasStyles :: "rawStyle \<Rightarrow> (string \<times> jsval) list" where
  "canvasStyles computed =
     objAssign
       (firstStyles computed @
        (if setAndNotNone (computed ''backgroundImage'')
         then [(''gradient'', gradientOf parseGradient (computed ''backgroundImage''))] else []))
       (canvasFields computed)"

text \<open>
  A captured node. The fields keep the source's names behind the prefix \<open>n\<close>; \<open>nhref\<close> and
  \<open>ntagName\<close> are \<open>undefined\<close> on CanvasEngine.jsx nodes, which do not have them.
\<close>

record nodeData =
  ntype :: string
  nx :: real
  ny :: real
  nwidth :: real
  nheight :: real
  nstyles :: "(string \<times> jsval) list"
  nzIndex :: jsnum
  nhref :: jsval
  ntagName :: jsval
  nclip :: "clipRegion option"
  ntext :: "string option"
  nsrc :: "string option"

text \<open>
  What differs between the two \<open>captureNode\<close> functions: the rounding of coordinates, the
  radius of the node's own region, the node classifier, the styles, and the link fields.
\<close>

record engine =
  roundCoord :: "real \<Rightarrow> real"
  radiusOf :: "string \<Rightarrow> real \<Rightarrow> real \<Rightarrow> jsnum"
  nodeTypeOf :: "element \<Rightarrow> string"
  stylesOf :: "rawStyle \<Rightarrow> (string \<times> jsval) list"
  linkFields :: bool

definition webEngine :: engine where
  "webEngine = \<lparr>roundCoord = jsRound, radiusOf = webRadius, nodeTypeOf = getNodeType,
                 stylesOf = extractStyles, linkFields = True\<rparr>"

definition canvasEngine :: engine where
  "canvasEngine = \<lparr>roundCoord = (\<lambda>v. v), radiusOf = (\<lambda>br w h. canvasRadius br),
                    nodeTypeOf = canvasGetNodeType, stylesOf = canvasStyles, linkFields = False\<rparr>"

text \<open>The node's own region \<open>myClip = { x, y, width, height, radius }\<close>.\<close>

definition myClip :: "engine \<Rightarrow> domRect \<Rightarrow> element \<Rightarrow> clipRegion" where
  "myClip eng rootRect e =
     (let r = boundingRect (attrsOf e);
          w = roundCoord eng (rwidth r);
          h = roundCoord eng (rheight r)
      in \<lparr>cx = roundCoord eng (rleft r - rleft rootRect),
          cy = roundCoord eng (rtop r - rtop rootRect),
          cwidth = w, cheight = h,
          cradius = radiusOf eng (orEmpty (computedStyle (attrsOf e) ''borderRadius'')) w h\<rparr>)"

text \<open>The clip \<open>captureNode\<close> passes to the children of \<open>e\<close> (its variable \<open>currentClip\<close>).\<close>

definition clipForChildren :: "engine \<Rightarrow> domRect \<Rightarrow> element \<Rightarrow> clipRegion option \<Rightarrow> clipRegion option" where
  "clipForChildren eng rootRect e parentClip =
     currentClip (orEmpty (computedStyle (attrsOf e) ''overflow'')) (myClip eng rootRect e) parentClip"

fun joinWith :: "string \<Rightarrow> string list \<Rightarrow> string" where
  "joinWith sep [] = []"
| "joinWith sep [s] = s"
| "joinWith sep (s # t # ts) = s @ sep @ joinWith sep (t # ts)"

text \<open>The text a node carries: the trimmed text content of a text node, the direct text of a box.\<close>

definition nodeText :: "string \<Rightarrow> element \<Rightarrow> string option" where
  "nodeText kind e =
     (if kind = ''text'' then Some (trim (textContent e))
      else if kind = ''box'' \<and> filter (\<lambda>t. trim t \<noteq> []) (textsOf (childNodes e)) \<noteq> []
      then Some (trim (joinWith '' '' (filter (\<lambda>t. trim t \<noteq> []) (textsOf (childNodes e)))))
      else None)"

text \<open>The \<open>nodeData\<close> that \<open>captureNode\<close> builds for \<open>e\<close>; \<open>clip: parentClip\<close>.\<close>

definition ownNode :: "engine \<Rightarrow> domRect \<Rightarrow> element \<Rightarrow> clipRegion option \<Rightarrow> nodeData" where
  "ownNode eng rootRect e parentClip =
     (let a = attrsOf e;
          r = boundingRect a;
          kind = nodeTypeOf eng e
      in \<lparr>ntype = kind,
          nx = roundCoord eng (rleft r - rleft rootRect),
          ny = roundCoord eng (rtop r - rtop rootRect),
          nwidth = roundCoord eng (rwidth r),
          nheight = roundCoord eng (rheight r),
          nstyles = stylesOf eng (computedStyle a),
          nzIndex = Num (numOr (parseIntOpt (computedStyle a ''zIndex'')) 0),
          nhref = (if linkFields eng
                   then (if tagName a = ''A'' then (case hrefAttr a of None \<Rightarrow> JNull | Some h \<Rightarrow> JStr h)
                         else JNull)
                   else JUndefined),
          ntagName = (if linkFields eng then JStr (tagName a) else JUndefined),
          nclip = parentClip,
          ntext = nodeText kind e,
          nsrc = (if kind = ''image'' then Some (imgSrc a) else None)\<rparr>)"

record capState =
  nodes :: "nodeData list"
  processedNodes :: "nat set"

definition isHidden :: "element \<Rightarrow> bool" where
  "isHidden e = (computedStyle (attrsOf e) ''display'' = Some ''none''
                 \<or> parseFloatOpt (computedStyle (attrsOf e) ''opacity'') = Num 0)"

text \<open>
  \<open>captureNode(element, parentClip)\<close>, threading \<open>this.nodes\<close> and \<open>this.processedNodes\<close>.
\<close>

function captureNode :: "engine \<Rightarrow> domRect \<Rightarrow> element \<Rightarrow> clipRegion option \<Rightarrow> capState \<Rightarrow> capState" where
  "captureNode eng rootRect e parentClip st =
     (if eid (attrsOf e) \<in> processedNodes st then st
      else if isHidden e then st
      else if nodeTypeOf eng e = ''text'' then
        (if orEmpty (ntext (ownNode eng rootRect e parentClip)) = [] then st
         else \<lparr>nodes = nodes st @ [ownNode eng rootRect e parentClip],
               processedNodes = markProcessedRecursive e (processedNodes st)\<rparr>)
      else fold (\<lambda>child s. captureNode eng rootRect child (clipForChildren eng rootRect e parentClip) s)
             (children e)
             \<lparr>nodes = nodes st @ [ownNode eng rootRect e parentClip],
              processedNodes = insert (eid (attrsOf e)) (processedNodes st)\<rparr>)"
  by pat_completeness auto
termination
  by (relation "measure (\<lambda>(eng, rootRect, e, parentClip, st). size e)") (auto simp add: size_children)

record snapshot =
  snodes :: "nodeData list"
  swidth :: real
  sheight :: real
  nodeCount :: nat

text \<open>
  \<open>capture(element)\<close> for a capturer constructed without \<open>styleWorker\<close> and
  \<open>gradientWorker\<close>, the default: no promise is queued and every node's styles are set
  during the traversal. \<open>None\<close> is \<open>null\<close>. The transforms neutralised before measuring are
  restored before returning and leave no trace in the result; \<open>stats.captureTime\<close> is
  left out. The branches that hand styles and gradients to a worker are not part of this
  function.
\<close>

definition capture :: "engine \<Rightarrow> element option \<Rightarrow> snapshot option" where
  "capture eng element =
     (case element of
        None \<Rightarrow> None
      | Some e \<Rightarrow>
          (let rootRect = boundingRect (attrsOf e);
               st = captureNode eng rootRect e None \<lparr>nodes = [], processedNodes = {}\<rparr>
           in Some \<lparr>snodes = nodes st,
                    swidth = jsCeil (rwidth rootRect),
                    sheight = jsCeil (rheight rootRect),
                    nodeCount = length (nodes st)\<rparr>))"

text \<open>
  The element reached from \<open>e\<close> by a path of child indices, and the clip inherited on the
  way: what the ancestors on the path pass down, starting from the clip given to \<open>e\<close>.
\<close>

fun elementAt :: "element \<Rightarrow> nat list \<Rightarrow> element option" where
  "elementAt e [] = Some e"
| "elementAt e (i # path) =
     (if i < length (children e) then elementAt (children e ! i) path else None)"

fun inheritedClip :: "engine \<Rightarrow> domRect \<Rightarrow> element \<Rightarrow> clipRegion option \<Rightarrow> nat list \<Rightarrow> clipRegion option" where
  "inheritedClip eng rootRect e parentClip [] = parentClip"
| "inheritedClip eng rootRect e parentClip (i # path) =
     (if i < length (children e)
      then inheritedClip eng rootRect (children e ! i) (clipForChildren eng rootRect e parentClip) path
      else None)"

text \<open>A node records the element \<open>e\<close>: it has the geometry \<open>captureNode\<close> measures for \<open>e\<close>.\<close>

definition recordsElement :: "engine \<Rightarrow> domRect \<Rightarrow> nodeData \<Rightarrow> element \<Rightarrow> bool" where
  "recordsElement eng rootRect n e =
     (nx n = roundCoord eng (rleft (boundingRect (attrsOf e)) - rleft rootRect)
      \<and> ny n = roundCoord eng (rtop (boundingRect (attrsOf e)) - rtop rootRect)
      \<and> nwidth n = roundCoord eng (rwidth (boundingRect (attrsOf e)))
      \<and> nheight n = roundCoord eng (rheight (boundingRect (attrsOf e)))
      \<and> ntype n = nodeTypeOf eng e)"


declare captureNode.simps [simp del]

text \<open>
  A node carries the inherited clip of the element it records: the element lies on some
  path below \<open>rootEl\<close>, and the node's clip is what the ancestors on that path hand down.
\<close>

definition carriesInheritedClip :: "engine \<Rightarrow> domRect \<Rightarrow> element \<Rightarrow> clipRegion option \<Rightarrow> nodeData \<Rightarrow> bool" where
  "carriesInheritedClip eng rootRect rootEl parentClip n =
     (\<exists>path e. elementAt rootEl path = Some e
               \<and> recordsElement eng rootRect n e
               \<and> nclip n = inheritedClip eng rootRect rootEl parentClip path)"

section \<open>Paint order of a snapshot (renderToCanvas, PixiRendererEngine.render)\<close>

text \<open>
  \<open>[...nodes].sort((a, b) => key(a) - key(b))\<close>: \<open>Array.prototype.sort\<close> is stable, and with
  a comparator that is the difference of finite keys its result is the ascending
  arrangement that keeps the order of equal keys, which insertion by key computes.
\<close>

definition sortByKey :: "('a \<Rightarrow> real) \<Rightarrow> 'a list \<Rightarrow> 'a list" where
  "sortByKey key xs = sort_key key xs"

text \<open>\<open>a.zIndex || 0\<close>, the key of \<open>renderToCanvas\<close> (and of CanvasEngine's \<open>renderSnapshot\<close>).\<close>

definition canvasKey :: "nodeData \<Rightarrow> real" where
  "canvasKey n = numOr (nzIndex n) 0"

text \<open>
  \<open>a.styles?.zIndex || 0\<close>, the key of \<open>PixiRendererEngine.render\<close>, for a \<open>styles.zIndex\<close>
  that is a number or is missing, as \<open>extractStyles\<close> and the style worker leave it.
\<close>

definition pixiKey :: "nodeData \<Rightarrow> real" where
  "pixiKey n = (case getProp (nstyles n) ''zIndex'' of JNum v \<Rightarrow> numOr v 0 | _ \<Rightarrow> 0)"

definition zIndexIsNumber :: "nodeData \<Rightarrow> bool" where
  "zIndexIsNumber n =
     (case getProp (nstyles n) ''zIndex'' of
        JNum v \<Rightarrow> True | JUndefined \<Rightarrow> True | JNull \<Rightarrow> True | _ \<Rightarrow> False)"

text \<open>The order in which each backend paints the nodes.\<close>

definition renderToCanvasOrder :: "nodeData list \<Rightarrow> nodeData list" where
  "renderToCanvasOrder nodeList = sortByKey canvasKey nodeList"

definition pixiRenderOrder :: "nodeData list \<Rightarrow> nodeData list" where
  "pixiRenderOrder nodeList = sortByKey pixiKey nodeList"

section \<open>An example tree\<close>

text \<open>
  A computed style with the browser's defaults, overridden by the given properties, and a
  small tree: a clipping root, a clipping rounded card inside it, and a line of text.
\<close>

definition demoStyle :: "(string \<times> string) list \<Rightarrow> rawStyle" where
  "demoStyle overrides = map_of (overrides @
     [(''backgroundColor'', ''rgba(0, 0, 0, 0)''), (''backgroundImage'', ''none''),
      (''borderTopWidth'', ''0px''), (''borderTopColor'', ''rgb(0, 0, 0)''), (''borderTopStyle'', ''none''),
      (''borderRightWidth'', ''0px''), (''borderRightColor'', ''rgb(0, 0, 0)''),
      (''borderBottomWidth'', ''0px''), (''borderBottomColor'', ''rgb(0, 0, 0)''),
      (''borderLeftWidth'', ''0px''), (''borderLeftColor'', ''rgb(0, 0, 0)''),
      (''borderRadius'', ''0px''), (''color'', ''rgb(0, 0, 0)''),
      (''fontSize'', ''16px''), (''fontFamily'', ''Arial''), (''fontWeight'', ''400''),
      (''fontStyle'', ''normal''), (''textAlign'', ''start''), (''justifyContent'', ''normal''),
      (''alignItems'', ''normal''), (''lineHeight'', ''normal''), (''letterSpacing'', ''normal''),
      (''paddingTop'', ''0px''), (''paddingRight'', ''0px''), (''paddingBottom'', ''0px''),
      (''paddingLeft'', ''0px''), (''opacity'', ''1''), (''boxShadow'', ''none''),
      (''transform'', ''none''), (''zIndex'', ''auto''), (''overflow'', ''visible''),
      (''visibility'', ''visible''), (''whiteSpace'', ''normal''), (''wordBreak'', ''normal''),
      (''display'', ''block'')])"

definition demoText :: element where
  "demoText = Element
     \<lparr>eid = 3, tagName = ''SPAN'',
      boundingRect = \<lparr>rleft = 20, rtop = 20, rwidth = 50, rheight = 10\<rparr>,
      computedStyle = demoStyle [], imgSrc = [], hrefAttr = None\<rparr>
     [Inl ''Hello'']"

definition demoCard :: element where
  "demoCard = Element
     \<lparr>eid = 2, tagName = ''DIV'',
      boundingRect = \<lparr>rleft = 10, rtop = 10, rwidth = 200, rheight = 50\<rparr>,
      computedStyle = demoStyle [(''overflow'', ''hidden''), (''borderRadius'', ''50%''),
                                 (''backgroundColor'', ''rgb(255, 0, 0)''), (''zIndex'', ''5'')],
      imgSrc = [], hrefAttr = None\<rparr>
     [Inr demoText]"

definition demoRoot :: element where
  "demoRoot = Element
     \<lparr>eid = 1, tagName = ''DIV'',
      boundingRect = \<lparr>rleft = 0, rtop = 0, rwidth = 100, rheight = 100\<rparr>,
      computedStyle = demoStyle [(''overflow'', ''hidden'')], imgSrc = [], hrefAttr = None\<rparr>
     [Inr demoCard]"

text \<open>A computed style whose numeric properties do not parse.\<close>

definition malformedStyle :: rawStyle where
  "malformedStyle = demoStyle
     [(''borderTopWidth'', ''thick''), (''fontSize'', ''large''), (''opacity'', ''opaque''),
      (''letterSpacing'', ''wide''), (''zIndex'', ''front'')]"

definition malformedElement :: element where
  "malformedElement = Element
     \<lparr>eid = 9, tagName = ''DIV'',
      boundingRect = \<lparr>rleft = 0, rtop = 0, rwidth = 10, rheight = 10\<rparr>,
      computedStyle = malformedStyle, imgSrc = [], hrefAttr = None\<rparr>
     []"

section \<open>Properties\<close>

subsection \<open>Clip composition\<close>

lemma intersectClip_proper:
  assumes "0 < overlapX p m" and "0 < overlapY p m"
  shows "intersectClip p m =
           \<lparr>cx = max (cx p) (cx m), cy = max (cy p) (cy m),
            cwidth = overlapX p m, cheight = overlapY p m, cradius = cradius m\<rparr>"
  using assms by (simp add: intersectClip_def overlapX_def overlapY_def Let_def)

lemma intersectClip_degenerate:
  assumes "overlapX p m \<le> 0 \<or> overlapY p m \<le> 0"
  shows "intersectClip p m = zeroClip"
  using assms by (auto simp add: intersectClip_def overlapX_def overlapY_def Let_def)

lemma inRegion_intersect:
  assumes "0 < overlapX p m" and "0 < overlapY p m"
  shows "inRegion (intersectClip p m) q = (inRegion p q \<and> inRegion m q)"
  unfolding intersectClip_proper [OF assms]
  by (auto simp add: inRegion_def overlapX_def overlapY_def)

text \<open>
  C2. A clipping node with a parent clip passes to its children the rectangle intersection
  of the parent clip and its own region: when the two overlap with positive extent on both
  axes, the result contains exactly the points of both regions; when the overlap is zero or
  negative on either axis, the result is the zero-area region \<open>{0, 0, 0, 0, 0}\<close>. The
  function is total, so the degenerate case yields a region and no error.
\<close>

theorem clip_compose_by_intersection:
  "clipsOverflow ov \<longrightarrow>
     currentClip ov m (Some p) = Some (intersectClip p m) \<and>
     (0 < overlapX p m \<and> 0 < overlapY p m \<longrightarrow>
        (\<forall>q. inRegion (intersectClip p m) q = (inRegion p q \<and> inRegion m q))) \<and>
     (overlapX p m \<le> 0 \<or> overlapY p m \<le> 0 \<longrightarrow> intersectClip p m = zeroClip)"
  using inRegion_intersect intersectClip_degenerate
  by (simp add: currentClip_def)

theorem clip_compose_by_intersection_witness:
  "currentClip ''hidden'' \<lparr>cx = 5, cy = 5, cwidth = 10, cheight = 10, cradius = Num 2\<rparr>
       (Some \<lparr>cx = 0, cy = 0, cwidth = 8, cheight = 20, cradius = Num 0\<rparr>)
     = Some \<lparr>cx = 5, cy = 5, cwidth = 3, cheight = 10, cradius = Num 2\<rparr>
   \<and> inRegion (intersectClip \<lparr>cx = 0, cy = 0, cwidth = 8, cheight = 20, cradius = Num 0\<rparr>
                 \<lparr>cx = 5, cy = 5, cwidth = 10, cheight = 10, cradius = Num 2\<rparr>) (6, 7)
   \<and> intersectClip \<lparr>cx = 0, cy = 0, cwidth = 4, cheight = 20, cradius = Num 0\<rparr>
                 \<lparr>cx = 5, cy = 5, cwidth = 10, cheight = 10, cradius = Num 2\<rparr> = zeroClip"
proof -
  let ?p = "\<lparr>cx = 0, cy = 0, cwidth = 8, cheight = 20, cradius = Num 0\<rparr>"
  let ?p' = "\<lparr>cx = 0, cy = 0, cwidth = 4, cheight = 20, cradius = Num 0\<rparr>"
  let ?m = "\<lparr>cx = 5, cy = 5, cwidth = 10, cheight = 10, cradius = Num 2\<rparr>"
  have c: "clipsOverflow ''hidden''" by (simp add: clipsOverflow_def)
  have o: "0 < overlapX ?p ?m \<and> 0 < overlapY ?p ?m"
    by (simp add: overlapX_def overlapY_def)
  have d: "overlapX ?p' ?m \<le> 0 \<or> overlapY ?p' ?m \<le> 0"
    by (simp add: overlapX_def overlapY_def)
  have i: "inRegion ?p (6, 7) \<and> inRegion ?m (6, 7)" by (simp add: inRegion_def)
  from clip_compose_by_intersection [of "''hidden''" ?m ?p] c o i
  have a: "currentClip ''hidden'' ?m (Some ?p) = Some (intersectClip ?p ?m)"
    and b: "inRegion (intersectClip ?p ?m) (6, 7)" by auto
  from clip_compose_by_intersection [of "''hidden''" ?m ?p'] c d
  have e: "intersectClip ?p' ?m = zeroClip" by auto
  have f: "intersectClip ?p ?m = \<lparr>cx = 5, cy = 5, cwidth = 3, cheight = 10, cradius = Num 2\<rparr>"
    by (simp add: intersectClip_def Let_def)
  from a b e f show ?thesis by simp
qed

subsection \<open>Flex layout\<close>

lemma foldl_add_sum_list: "foldl (\<lambda>sum s. sum + f s) a xs = a + sum_list (map f xs)"
  for a :: real
  by (induction xs arbitrary: a) (simp_all add: add.assoc)

lemma length_positionsFrom: "length (positionsFrom step cur sizes) = length sizes"
  by (induction sizes arbitrary: cur) simp_all

lemma positionsFrom_nth:
  "i < length sizes \<Longrightarrow>
     positionsFrom step cur sizes ! i = cur + sum_list (take i sizes) + real i * step"
proof (induction sizes arbitrary: cur i)
  case Nil
  then show ?case by simp
next
  case (Cons s rest)
  show ?case
  proof (cases i)
    case 0
    then show ?thesis by simp
  next
    case (Suc j)
    with Cons.prems have j: "j < length rest" by simp
    then have "rest \<noteq> []" by auto
    with Suc j Cons.IH [of j "cur + s + step"] show ?thesis
      by (simp add: algebra_simps)
  qed
qed

lemma gapAfter_positionsFrom:
  assumes "i + 1 < length sizes"
  shows "gapAfter (map (\<lambda>p. c + p) (positionsFrom step cur sizes)) sizes i = step"
proof -
  from assms have i: "i < length sizes" by simp
  have t: "take (Suc i) sizes = take i sizes @ [sizes ! i]"
    using i by (simp add: take_Suc_conv_app_nth)
  show ?thesis
    using assms i positionsFrom_nth [of "i + 1" sizes step cur] positionsFrom_nth [of i sizes step cur]
    by (simp add: gapAfter_def length_positionsFrom t algebra_simps)
qed

text \<open>
  C5. With \<open>justifyContent: space-between\<close> and at least two children, the first child
  starts at the content-box start; the space after every child but the last is the fixed
  gap plus an equal share \<open>freeSpace / (N - 1)\<close> of the free space, so the shares over the
  \<open>N - 1\<close> gaps add up to the free space; and the last child ends at the content-box end.
\<close>

theorem space_between_distribution:
  assumes "2 \<le> length sizes"
  shows "length (childMainStarts c sizes ''space-between'' avail gap) = length sizes
       \<and> childMainStarts c sizes ''space-between'' avail gap ! 0 = c
       \<and> (\<forall>i. i + 1 < length sizes \<longrightarrow>
            gapAfter (childMainStarts c sizes ''space-between'' avail gap) sizes i
              = gap + freeSpaceOf sizes avail gap / (real (length sizes) - 1))
       \<and> (\<Sum>i < length sizes - 1.
            gapAfter (childMainStarts c sizes ''space-between'' avail gap) sizes i - gap)
              = freeSpaceOf sizes avail gap
       \<and> last (childMainStarts c sizes ''space-between'' avail gap) + last sizes = c + avail"
proof -
  let ?n = "length sizes"
  let ?free = "freeSpaceOf sizes avail gap"
  let ?step = "gap + ?free / (real ?n - 1)"
  from assms have ne: "sizes \<noteq> []" by auto
  have n1: "real ?n - 1 \<noteq> 0" using assms by simp
  have starts: "childMainStarts c sizes ''space-between'' avail gap
                  = map (\<lambda>p. c + p) (positionsFrom ?step 0 sizes)"
    using assms
    by (simp add: childMainStarts_def calculateMainAxisPositions_def Let_def spacing_def
        startOffset_def freeSpaceOf_def totalGapOf_def foldl_add_sum_list [where f = "\<lambda>s. s", simplified]
        of_nat_diff)
  have len: "length (childMainStarts c sizes ''space-between'' avail gap) = ?n"
    by (simp add: starts length_positionsFrom)
  have first: "childMainStarts c sizes ''space-between'' avail gap ! 0 = c"
    using ne positionsFrom_nth [of 0 sizes ?step 0] by (simp add: starts length_positionsFrom)
  have gaps: "\<forall>i. i + 1 < ?n \<longrightarrow>
      gapAfter (childMainStarts c sizes ''space-between'' avail gap) sizes i = ?step"
    using gapAfter_positionsFrom by (simp add: starts)
  have "(\<Sum>i < ?n - 1. gapAfter (childMainStarts c sizes ''space-between'' avail gap) sizes i - gap)
          = (\<Sum>i < ?n - 1. ?free / (real ?n - 1))"
    by (rule sum.cong) (use gaps in auto)
  also have "\<dots> = real (?n - 1) * (?free / (real ?n - 1))" by simp
  also have "\<dots> = ?free" using assms n1 by (simp add: of_nat_diff)
  finally have total: "(\<Sum>i < ?n - 1.
      gapAfter (childMainStarts c sizes ''space-between'' avail gap) sizes i - gap) = ?free" .
  have lastpos: "last (childMainStarts c sizes ''space-between'' avail gap)
                   = c + (sum_list (take (?n - 1) sizes) + real (?n - 1) * ?step)"
  proof -
    have pne: "positionsFrom ?step 0 sizes \<noteq> []"
      using ne length_positionsFrom [of ?step 0 sizes] by auto
    have "last (positionsFrom ?step 0 sizes) = positionsFrom ?step 0 sizes ! (?n - 1)"
      using pne by (simp add: last_conv_nth length_positionsFrom)
    also have "\<dots> = sum_list (take (?n - 1) sizes) + real (?n - 1) * ?step"
      using ne positionsFrom_nth [of "?n - 1" sizes ?step 0] by simp
    finally show ?thesis using pne by (simp add: starts last_map)
  qed
  have split: "sum_list (take (?n - 1) sizes) + last sizes = sum_list sizes"
    using ne by (metis append_butlast_last_id butlast_conv_take sum_list.Nil sum_list.Cons
        sum_list_append add.right_neutral)
  have r1: "real (?n - 1) = real ?n - 1" using assms by (simp add: of_nat_diff)
  have "(real ?n - 1) * ?step = gap * (real ?n - 1) + ?free * ((real ?n - 1) / (real ?n - 1))"
    by (simp add: distrib_left mult.commute)
  then have "real (?n - 1) * ?step = gap * (real ?n - 1) + ?free"
    using n1 r1 by simp
  with lastpos split have fin: "last (childMainStarts c sizes ''space-between'' avail gap) + last sizes
      = c + avail"
    by (simp add: freeSpaceOf_def algebra_simps)
  from len first gaps total fin show ?thesis by blast
qed

theorem space_between_distribution_witness:
  "childMainStarts 10 [20, 30, 10] ''space-between'' 100 5 = [10, 50, 100]
   \<and> gapAfter [10, 50, 100] [20, 30, 10] 0 = 5 + freeSpaceOf [20, 30, 10] 100 5 / 2
   \<and> freeSpaceOf [20, 30, 10] 100 5 = 30"
proof -
  have l: "2 \<le> length [20, 30, 10 :: real]" by simp
  have e: "childMainStarts 10 [20, 30, 10] ''space-between'' 100 5 = [10, 50, 100]"
    by (simp add: childMainStarts_def calculateMainAxisPositions_def Let_def spacing_def
        startOffset_def totalGapOf_def)
  from space_between_distribution [OF l, of 10 100 5] e show ?thesis
    by (simp add: freeSpaceOf_def gapAfter_def)
qed

lemma flex_grow_scenario:
  "calculateFlexSizes
     [\<lparr>flexBasis = Undefined, flexGrow = PNum (Num 0), flexShrink = Undefined, intrinsicMain = 40\<rparr>,
      \<lparr>flexBasis = Undefined, flexGrow = PNum (Num 2), flexShrink = Undefined, intrinsicMain = 50\<rparr>,
      \<lparr>flexBasis = Undefined, flexGrow = PNum (Num 1), flexShrink = Undefined, intrinsicMain = 20\<rparr>]
     200 0
   = [Num (40 + 0), Num (50 + 60), Num (20 + 30)]"
  by (simp add: calculateFlexSizes_def baseSize_def growOf_def totalGapOf_def Let_def)

text \<open>
  C4, at the failing input. Two children of intrinsic size 60 with \<open>flexShrink\<close> 0 and 1 in
  100 units: the overflow of 20 is taken in equal halves from both, because
  \<open>parseFloat(flexShrink) || 1\<close> turns the weight 0 into 1. In proportion to the weights
  0 and 1 the sizes would be 60 and 40.
\<close>

theorem flex_shrink_zero_weight_shrinks:
  "calculateFlexSizes
     [\<lparr>flexBasis = Undefined, flexGrow = Undefined, flexShrink = PNum (Num 0), intrinsicMain = 60\<rparr>,
      \<lparr>flexBasis = Undefined, flexGrow = Undefined, flexShrink = PNum (Num 1), intrinsicMain = 60\<rparr>]
     100 0
   = [Num 50, Num 50]"
  by (simp add: calculateFlexSizes_def baseSize_def shrinkOf_def totalGapOf_def Let_def jsMax0_def)

subsection \<open>Word wrap\<close>

lemma splitOn_not_Nil: "splitOn sep s \<noteq> []"
  by (induction s) (auto split: list.splits)

lemma splitOn_no_sep: "w \<in> set (splitOn sep s) \<Longrightarrow> sep \<notin> set w"
proof (induction s arbitrary: w)
  case Nil
  then show ?case by simp
next
  case (Cons c cs)
  show ?case
  proof (cases "c = sep")
    case True
    with Cons show ?thesis by auto
  next
    case False
    obtain v vs where s: "splitOn sep cs = v # vs"
      using splitOn_not_Nil [of sep cs] by (cases "splitOn sep cs") auto
    with False Cons.prems have "w = c # v \<or> w \<in> set vs" by simp
    with False s Cons.IH show ?thesis by auto
  qed
qed

lemma splitOn_append: "splitOn sep (a @ sep # b) = splitOn sep a @ splitOn sep b"
proof (induction a)
  case Nil
  show ?case by simp
next
  case (Cons x a)
  obtain v vs where s: "splitOn sep a = v # vs"
    using splitOn_not_Nil [of sep a] by (cases "splitOn sep a") auto
  with Cons show ?case by simp
qed

lemma splitOn_whole: "sep \<notin> set s \<Longrightarrow> splitOn sep s = [s]"
  by (induction s) auto

lemma wordsOf_Nil: "wordsOf [] = []"
  by (simp add: wordsOf_def)

lemma wordsOf_word: "CHR '' '' \<notin> set w \<Longrightarrow> wordsOf w = (if w = [] then [] else [w])"
  by (simp add: wordsOf_def splitOn_whole)

lemma wordsOf_join: "wordsOf (a @ '' '' @ b) = wordsOf a @ wordsOf b"
  by (simp add: wordsOf_def splitOn_append)

lemma wordsOf_pieces:
  "concat (map wordsOf (splitOn (CHR '' '') s)) = wordsOf s"
proof -
  have "\<forall>w \<in> set ws. CHR '' '' \<notin> set w \<Longrightarrow>
        concat (map wordsOf ws) = filter (\<lambda>w. w \<noteq> []) ws" for ws
    by (induction ws) (simp_all add: wordsOf_word)
  then show ?thesis
    using splitOn_no_sep [of _ "CHR '' ''" s] by (simp add: wordsOf_def)
qed

lemma wrapStep_words:
  "CHR '' '' \<notin> set word \<Longrightarrow> wrapWords (wrapStep m maxWidth st word) = wrapWords st @ wordsOf word"
  by (cases "snd st = []")
     (simp_all add: wrapStep_def wrapWords_def Let_def wordsOf_join wordsOf_Nil
        del: append_assoc append.simps)

lemma wrapStep_fits:
  assumes w: "CHR '' '' \<notin> set word" and f: "wrapFits m maxWidth st"
  shows "wrapFits m maxWidth (wrapStep m maxWidth st word)"
proof (cases "snd st = []")
  case True
  then have "wrapStep m maxWidth st word = (fst st, word)"
    by (simp add: wrapStep_def Let_def)
  with w f show ?thesis by (simp add: wrapFits_def)
next
  case False
  show ?thesis
  proof (cases "m (snd st @ '' '' @ word) > maxWidth")
    case True
    with False have "wrapStep m maxWidth st word = (fst st @ [snd st], word)"
      by (simp add: wrapStep_def Let_def)
    with w f False show ?thesis by (simp add: wrapFits_def)
  next
    case nofit: False
    with False have "wrapStep m maxWidth st word = (fst st, snd st @ '' '' @ word)"
      by (simp add: wrapStep_def Let_def)
    with f nofit show ?thesis by (simp add: wrapFits_def)
  qed
qed

lemma foldl_wrapStep:
  "\<forall>w \<in> set ws. CHR '' '' \<notin> set w \<Longrightarrow> wrapFits m maxWidth st \<Longrightarrow>
     wrapWords (foldl (wrapStep m maxWidth) st ws) = wrapWords st @ concat (map wordsOf ws)
     \<and> wrapFits m maxWidth (foldl (wrapStep m maxWidth) st ws)"
proof (induction ws arbitrary: st)
  case Nil
  then show ?case by simp
next
  case (Cons w ws)
  then have w: "CHR '' '' \<notin> set w" and ws: "\<forall>w \<in> set ws. CHR '' '' \<notin> set w" by auto
  from Cons.IH [OF ws wrapStep_fits [OF w Cons.prems(2)]] wrapStep_words [OF w, of m maxWidth st]
  show ?case by simp
qed

text \<open>
  C10. For every text, measure and width, the words of the returned lines, read line after
  line, are the words of the text in their order; and every returned line is non-empty and,
  unless it is a single word (it holds no space), measures at most \<open>maxWidth\<close>.
\<close>

theorem wrapText_words_and_fit:
  "concat (map wordsOf (wrapText m content maxWidth)) = wordsOf content
   \<and> (\<forall>l \<in> set (wrapText m content maxWidth).
        l \<noteq> [] \<and> (CHR '' '' \<in> set l \<longrightarrow> m l \<le> maxWidth))"
proof -
  let ?st = "foldl (wrapStep m maxWidth) ([], []) (splitOn (CHR '' '') content)"
  have init: "wrapFits m maxWidth ([], [])" by (simp add: wrapFits_def)
  have pieces: "\<forall>w \<in> set (splitOn (CHR '' '') content). CHR '' '' \<notin> set w"
    using splitOn_no_sep by blast
  from foldl_wrapStep [OF pieces init]
  have words: "wrapWords ?st = wordsOf content" and fits: "wrapFits m maxWidth ?st"
    by (simp_all add: wrapWords_def wordsOf_Nil wordsOf_pieces)
  show ?thesis
  proof (cases "snd ?st = []")
    case True
    with words fits show ?thesis
      by (simp add: wrapText_def Let_def wrapWords_def wrapFits_def wordsOf_Nil)
  next
    case False
    with words fits show ?thesis
      by (simp add: wrapText_def Let_def wrapWords_def wrapFits_def)
  qed
qed

theorem wrapText_words_and_fit_witness:
  "wrapText unitMeasure ''ab  cd efghijk l'' 5 = [''ab '', ''cd'', ''efghijk'', ''l'']
   \<and> concat (map wordsOf [''ab '', ''cd'', ''efghijk'', ''l'']) = wordsOf ''ab  cd efghijk l''
   \<and> unitMeasure ''ab '' \<le> 5"
proof -
  have e: "wrapText unitMeasure ''ab  cd efghijk l'' 5 = [''ab '', ''cd'', ''efghijk'', ''l'']"
    by code_simp
  have s: "CHR '' '' \<in> set ''ab ''" by simp
  from wrapText_words_and_fit [of unitMeasure "''ab  cd efghijk l''" 5]
  have w: "concat (map wordsOf (wrapText unitMeasure ''ab  cd efghijk l'' 5)) = wordsOf ''ab  cd efghijk l''"
    and f: "\<forall>l \<in> set (wrapText unitMeasure ''ab  cd efghijk l'' 5).
              l \<noteq> [] \<and> (CHR '' '' \<in> set l \<longrightarrow> unitMeasure l \<le> 5)"
    by blast+
  from f have "unitMeasure ''ab '' \<le> 5" unfolding e using s by (metis list.set_intros(1))
  with w e show ?thesis by (simp only:)
qed

subsection \<open>Grid tracks\<close>

lemma sumNums_Num_aux: "foldl jsAdd (Num a) (map Num ws) = Num (a + sum_list ws)"
  by (induction ws arbitrary: a) (simp_all add: add.assoc)

lemma sumNums_Num: "sumNums (map Num ws) = Num (sum_list ws)"
  by (simp add: sumNums_def sumNums_Num_aux)

lemma map_snd_indexed: "map (\<lambda>it. f (snd it)) (zip [0 ..< length xs] xs) = map f xs"
  by (induction xs rule: rev_induct) simp_all

lemma sum_list_scale: "sum_list (map (\<lambda>w. c * w) ws) = c * sum_list ws"
  for c :: real
  by (induction ws) (simp_all add: distrib_left)

lemma filter_all_fr:
  assumes "\<forall>t \<in> set tracks. isFrTrack t"
  shows "filter (\<lambda>it. isFrTrack (snd it)) (zip [0 ..< length tracks] tracks) = zip [0 ..< length tracks] tracks"
    and "filter (\<lambda>it. \<not> isFrTrack (snd it)) (zip [0 ..< length tracks] tracks) = []"
  using assms by (auto simp add: filter_empty_conv filter_id_conv dest: set_zip_rightD)

lemma fr_only_sizes:
  assumes fr: "\<forall>t \<in> set tracks. isFrTrack t"
    and ws: "map parseFloatProp tracks = map Num ws"
    and tf: "0 < sum_list ws"
    and rem: "0 < availableSpace - totalGapOf gap (length tracks)"
  shows "resolveGridTracks autoSize tracks availableSpace gap
           = map (\<lambda>w. Num ((availableSpace - totalGapOf gap (length tracks)) / sum_list ws * w)) ws"
proof -
  let ?ix = "zip [0 ..< length tracks] tracks"
  let ?unit = "(availableSpace - totalGapOf gap (length tracks)) / sum_list ws"
  have total: "sumNums (map (\<lambda>it. parseFloatProp (snd it)) ?ix) = Num (sum_list ws)"
    by (simp only: map_snd_indexed ws sumNums_Num)
  have each: "map (\<lambda>it. if isFrTrack (snd it)
                      then jsMul (Num ?unit) (parseFloatProp (snd it))
                      else firstPassSize autoSize availableSpace it) ?ix
              = map (\<lambda>w. Num (?unit * w)) ws"
  proof -
    have "map (\<lambda>it. if isFrTrack (snd it)
                      then jsMul (Num ?unit) (parseFloatProp (snd it))
                      else firstPassSize autoSize availableSpace it) ?ix
          = map (\<lambda>it. jsMul (Num ?unit) (parseFloatProp (snd it))) ?ix"
      using fr by (auto dest: set_zip_rightD)
    also have "\<dots> = map (\<lambda>t. jsMul (Num ?unit) (parseFloatProp t)) tracks"
      by (rule map_snd_indexed [where f = "\<lambda>t. jsMul (Num ?unit) (parseFloatProp t)"])
    also have "\<dots> = map (jsMul (Num ?unit)) (map parseFloatProp tracks)" by simp
    also have "\<dots> = map (jsMul (Num ?unit)) (map Num ws)" by (simp only: ws)
    also have "\<dots> = map (\<lambda>w. Num (?unit * w)) ws" by simp
    finally show ?thesis .
  qed
  have used: "sumNums (map (firstPassSize autoSize availableSpace)
                 (filter (\<lambda>it. \<not> isFrTrack (snd it)) ?ix)) = Num 0"
    by (simp add: filter_all_fr [OF fr] sumNums_def)
  have frs: "filter (\<lambda>it. isFrTrack (snd it)) ?ix = ?ix"
    by (rule filter_all_fr [OF fr])
  have "resolveGridTracks autoSize tracks availableSpace gap
          = map (\<lambda>it. if isFrTrack (snd it)
                      then jsMul (Num ?unit) (parseFloatProp (snd it))
                      else firstPassSize autoSize availableSpace it) ?ix"
    unfolding resolveGridTracks_def Let_def used frs total
    using tf rem by simp
  with each show ?thesis by (simp only:)
qed

lemma fr_tracks_positive_case:
  assumes "\<forall>t \<in> set tracks. isFrTrack t"
    and "map parseFloatProp tracks = map Num ws"
    and "0 < sum_list ws"
    and "0 < availableSpace - totalGapOf gap (length tracks)"
  shows "resolveGridTracks autoSize tracks availableSpace gap
           = map (\<lambda>w. Num ((availableSpace - totalGapOf gap (length tracks)) / sum_list ws * w)) ws
       \<and> jsAdd (sumNums (resolveGridTracks autoSize tracks availableSpace gap))
               (Num (totalGapOf gap (length tracks))) = Num availableSpace"
proof -
  let ?rem = "availableSpace - totalGapOf gap (length tracks)"
  have s: "resolveGridTracks autoSize tracks availableSpace gap
             = map (\<lambda>w. Num (?rem / sum_list ws * w)) ws"
    by (rule fr_only_sizes [OF assms])
  have "map (\<lambda>w. Num (?rem / sum_list ws * w)) ws = map Num (map (\<lambda>w. ?rem / sum_list ws * w) ws)"
    by simp
  then have "sumNums (map (\<lambda>w. Num (?rem / sum_list ws * w)) ws)
               = Num (sum_list (map (\<lambda>w. ?rem / sum_list ws * w) ws))"
    by (simp only: sumNums_Num)
  also have "sum_list (map (\<lambda>w. ?rem / sum_list ws * w) ws) = ?rem / sum_list ws * sum_list ws"
    by (rule sum_list_scale)
  also have "\<dots> = ?rem" using assms(3) by simp
  finally have "sumNums (map (\<lambda>w. Num (?rem / sum_list ws * w)) ws) = Num ?rem" .
  with s show ?thesis by simp
qed

lemma parse_1fr: "parseFloat ''1fr'' = Num 1" by code_simp
lemma parse_2fr: "parseFloat ''2fr'' = Num 2" by code_simp
lemma isFr_1fr: "isFrTrack (PStr ''1fr'')" by code_simp
lemma isFr_2fr: "isFrTrack (PStr ''2fr'')" by code_simp

lemma foldl_jsAdd_NaN: "foldl jsAdd NaN xs = NaN"
  by (induction xs) simp_all

lemma foldl_jsAdd_Num:
  "foldl jsAdd (Num a) xs = Num t \<Longrightarrow> \<exists>ws. xs = map Num ws \<and> t = a + sum_list ws"
proof (induction xs arbitrary: a)
  case Nil
  then show ?case by simp
next
  case (Cons x xs)
  show ?case
  proof (cases x)
    case NaN
    with Cons.prems show ?thesis by (simp add: foldl_jsAdd_NaN)
  next
    case (Num b)
    with Cons.prems have "foldl jsAdd (Num (a + b)) xs = Num t" by simp
    from Cons.IH [OF this] obtain ws where "xs = map Num ws" and "t = a + b + sum_list ws"
      by blast
    with Num have "x # xs = map Num (b # ws) \<and> t = a + sum_list (b # ws)" by simp
    then show ?thesis by (rule exI [where x = "b # ws"])
  qed
qed

lemma sumNums_positive:
  "jsGt (sumNums xs) 0 \<Longrightarrow> \<exists>ws. xs = map Num ws \<and> 0 < sum_list ws"
proof -
  assume g: "jsGt (sumNums xs) 0"
  then obtain t where t: "sumNums xs = Num t" and p: "0 < t"
    by (cases "sumNums xs") auto
  from foldl_jsAdd_Num [of 0 xs t] t obtain ws where "xs = map Num ws" and "t = sum_list ws"
    by (auto simp add: sumNums_def)
  with p show ?thesis by blast
qed

lemma fr_tracks_otherwise_zero:
  assumes fr: "\<forall>t \<in> set tracks. isFrTrack t"
    and g: "\<not> (jsGt (sumNums (map parseFloatProp tracks)) 0
               \<and> 0 < availableSpace - totalGapOf gap (length tracks))"
  shows "resolveGridTracks autoSize tracks availableSpace gap = map (\<lambda>t. Num 0) tracks"
proof -
  let ?ix = "zip [0 ..< length tracks] tracks"
  have used: "sumNums (map (firstPassSize autoSize availableSpace)
                 (filter (\<lambda>it. \<not> isFrTrack (snd it)) ?ix)) = Num 0"
    by (simp add: filter_all_fr [OF fr] sumNums_def)
  have frs: "filter (\<lambda>it. isFrTrack (snd it)) ?ix = ?ix"
    by (rule filter_all_fr [OF fr])
  have tot: "map (\<lambda>it. parseFloatProp (snd it)) ?ix = map parseFloatProp tracks"
    by (rule map_snd_indexed)
  have "map (firstPassSize autoSize availableSpace) ?ix = map (\<lambda>it. Num 0) ?ix"
    using fr by (auto simp add: firstPassSize_def dest: set_zip_rightD)
  also have "\<dots> = map (\<lambda>t. Num 0) tracks"
    by (rule map_snd_indexed [where f = "\<lambda>t. Num 0"])
  finally have sizes: "map (firstPassSize autoSize availableSpace) ?ix = map (\<lambda>t. Num 0) tracks" .
  show ?thesis
  proof (cases "sumNums (map parseFloatProp tracks)")
    case NaN
    then show ?thesis
      unfolding resolveGridTracks_def Let_def used frs tot sizes by simp
  next
    case (Num tf)
    with g have "\<not> (0 < tf \<and> 0 < availableSpace - totalGapOf gap (length tracks))" by simp
    with Num show ?thesis
      unfolding resolveGridTracks_def Let_def used frs tot sizes by auto
  qed
qed

text \<open>
  C6, as amended. Take a track list of \<open>fr\<close> tracks only. When the weights add up to a
  positive number (\<open>totalFr > 0\<close>, which a weight that does not parse rules out) and the
  available space exceeds the gaps between the tracks (\<open>remaining > 0\<close>), every track gets
  the same amount per unit of weight, and the track sizes plus the gaps add up to the
  available space; numbers being reals here, the sum is exact. Otherwise every track
  resolves to size 0.
\<close>

theorem fr_tracks_share_available_space:
  assumes "\<forall>t \<in> set tracks. isFrTrack t"
  shows "(jsGt (sumNums (map parseFloatProp tracks)) 0
            \<and> 0 < availableSpace - totalGapOf gap (length tracks) \<longrightarrow>
          (\<exists>ws. map parseFloatProp tracks = map Num ws \<and> 0 < sum_list ws
                \<and> resolveGridTracks autoSize tracks availableSpace gap
                    = map (\<lambda>w. Num ((availableSpace - totalGapOf gap (length tracks)) / sum_list ws * w)) ws)
          \<and> jsAdd (sumNums (resolveGridTracks autoSize tracks availableSpace gap))
                   (Num (totalGapOf gap (length tracks))) = Num availableSpace)
       \<and> (\<not> (jsGt (sumNums (map parseFloatProp tracks)) 0
               \<and> 0 < availableSpace - totalGapOf gap (length tracks)) \<longrightarrow>
          resolveGridTracks autoSize tracks availableSpace gap = map (\<lambda>t. Num 0) tracks)"
proof (intro conjI impI)
  assume g: "jsGt (sumNums (map parseFloatProp tracks)) 0
             \<and> 0 < availableSpace - totalGapOf gap (length tracks)"
  then obtain ws where ws: "map parseFloatProp tracks = map Num ws" and p: "0 < sum_list ws"
    using sumNums_positive by blast
  from g have r: "0 < availableSpace - totalGapOf gap (length tracks)" by simp
  from fr_tracks_positive_case [OF assms ws p r, of autoSize]
  have s: "resolveGridTracks autoSize tracks availableSpace gap
             = map (\<lambda>w. Num ((availableSpace - totalGapOf gap (length tracks)) / sum_list ws * w)) ws"
    and t: "jsAdd (sumNums (resolveGridTracks autoSize tracks availableSpace gap))
               (Num (totalGapOf gap (length tracks))) = Num availableSpace"
    by blast+
  from ws p s
  show "\<exists>ws. map parseFloatProp tracks = map Num ws \<and> 0 < sum_list ws
            \<and> resolveGridTracks autoSize tracks availableSpace gap
                = map (\<lambda>w. Num ((availableSpace - totalGapOf gap (length tracks)) / sum_list ws * w)) ws"
    by blast
  from t show "jsAdd (sumNums (resolveGridTracks autoSize tracks availableSpace gap))
               (Num (totalGapOf gap (length tracks))) = Num availableSpace" .
next
  assume "\<not> (jsGt (sumNums (map parseFloatProp tracks)) 0
             \<and> 0 < availableSpace - totalGapOf gap (length tracks))"
  from fr_tracks_otherwise_zero [OF assms this]
  show "resolveGridTracks autoSize tracks availableSpace gap = map (\<lambda>t. Num 0) tracks" .
qed

theorem fr_tracks_share_available_space_witness:
  "resolveGridTracks defaultAutoSize [PStr ''1fr'', PStr ''2fr'', PStr ''1fr''] 420 10
     = [Num 100, Num 200, Num 100]
   \<and> jsAdd (sumNums (resolveGridTracks defaultAutoSize [PStr ''1fr'', PStr ''2fr'', PStr ''1fr''] 420 10))
           (Num (totalGapOf 10 3)) = Num 420
   \<and> resolveGridTracks defaultAutoSize [PStr ''1fr'', PStr ''1fr''] 10 20 = [Num 0, Num 0]"
proof -
  let ?tracks = "[PStr ''1fr'', PStr ''2fr'', PStr ''1fr'']"
  let ?two = "[PStr ''1fr'', PStr ''1fr'']"
  have a: "\<forall>t \<in> set ?tracks. isFrTrack t" by (simp add: isFr_1fr isFr_2fr)
  have a2: "\<forall>t \<in> set ?two. isFrTrack t" by (simp add: isFr_1fr)
  have g: "jsGt (sumNums (map parseFloatProp ?tracks)) 0 \<and> 0 < 420 - totalGapOf 10 (length ?tracks)"
    by (simp add: parse_1fr parse_2fr sumNums_def totalGapOf_def)
  have n: "\<not> (jsGt (sumNums (map parseFloatProp ?two)) 0 \<and> 0 < 10 - totalGapOf 20 (length ?two))"
    by (simp add: totalGapOf_def)
  have e: "resolveGridTracks defaultAutoSize ?tracks 420 10 = [Num 100, Num 200, Num 100]"
    by code_simp
  from fr_tracks_share_available_space [OF a, of 420 10 defaultAutoSize] g
  have s: "jsAdd (sumNums (resolveGridTracks defaultAutoSize ?tracks 420 10))
             (Num (totalGapOf 10 (length ?tracks))) = Num 420" by blast
  from fr_tracks_share_available_space [OF a2, of 10 20 defaultAutoSize] n
  have z: "resolveGridTracks defaultAutoSize ?two 10 20 = map (\<lambda>t. Num 0) ?two" by blast
  have l: "length ?tracks = 3" by simp
  from s have s': "jsAdd (sumNums (resolveGridTracks defaultAutoSize ?tracks 420 10))
             (Num (totalGapOf 10 3)) = Num 420" unfolding l .
  from z have z': "resolveGridTracks defaultAutoSize ?two 10 20 = [Num 0, Num 0]" by simp
  from e s' z' show ?thesis by (intro conjI)
qed

text \<open>
  C6 as stated fails where the guard is not passed: two \<open>1fr\<close> tracks with a gap of 20 in
  10 units of space both get size 0, and sizes plus gaps come to 20, not 10.
\<close>

theorem fr_tracks_narrow_container_counterexample:
  "isFrTrack (PStr ''1fr'')
   \<and> resolveGridTracks defaultAutoSize [PStr ''1fr'', PStr ''1fr''] 10 20 = [Num 0, Num 0]
   \<and> jsAdd (sumNums [Num 0, Num 0]) (Num (totalGapOf 20 2)) \<noteq> Num 10"
  by code_simp

subsection \<open>Gradient parsing\<close>

lemma splitLoop_not_Nil: "splitLoop depth cur s \<noteq> []"
  by (induction s arbitrary: depth cur) simp_all

lemma splitTopLevel_not_Nil: "splitTopLevel s \<noteq> []"
  by (simp add: splitTopLevel_def splitLoop_not_Nil)

lemma linear_gradient_default_angle:
  "parseLinearGradient ''red, blue'' =
     JObj [(''type'', JStr ''linear''), (''angle'', JNum (Num 180)),
           (''stops'', JArr [JObj [(''color'', JStr ''red''), (''position'', JNum (Num 0))],
                             JObj [(''color'', JStr ''blue''), (''position'', JNum (Num 1))]])]"
  by code_simp

lemma linear_gradient_degrees:
  "parseLinearGradient ''45deg, red 0%, blue 100%'' =
     JObj [(''type'', JStr ''linear''), (''angle'', JNum (Num 45)),
           (''stops'', JArr [JObj [(''color'', JStr ''red''), (''position'', JNum (Num 0))],
                             JObj [(''color'', JStr ''blue''), (''position'', JNum (Num 1))]])]"
  by code_simp

lemma direction_angles:
  "directionAngle ''to top'' = 0" "directionAngle ''to right'' = 90"
  "directionAngle ''to bottom'' = 180" "directionAngle ''to left'' = 270"
  by code_simp+

text \<open>
  C3, at the failing input. For the diagonal \<open>to bottom right\<close> the main-thread parser
  returns the angle 180, not 135: its four \<open>includes\<close> tests run in sequence and the last
  one that fires (\<open>bottom\<close>) overwrites the angle set by \<open>right\<close>.
\<close>

theorem linear_gradient_diagonal_angle:
  "parseLinearGradient ''to bottom right, red, blue'' =
     JObj [(''type'', JStr ''linear''), (''angle'', JNum (Num 180)),
           (''stops'', JArr [JObj [(''color'', JStr ''red''), (''position'', JNum (Num 0))],
                             JObj [(''color'', JStr ''blue''), (''position'', JNum (Num 1))]])]"
  by code_simp

subsection \<open>Worker and local style resolution\<close>

lemma batch_lengths:
  "length (workerProcessBatch rawStyles) = length rawStyles"
  "length (localProcessBatch rawStyles) = length rawStyles"
  by (simp_all add: workerProcessBatch_def localProcessBatch_def)

text \<open>
  C8, at the failing input: a batch of one raw style whose background image is
  \<open>linear-gradient(red, blue)\<close>. Both paths return one fragment, but the \<open>gradient\<close>
  fields differ: the worker's stops are \<open>{color: 0xff0000, alpha: 1, offset: 0}\<close>, the local
  path's are \<open>{color: 'red', position: 0}\<close>, the form the renderers read.
\<close>

theorem worker_and_local_gradient_differ:
  "length (workerProcessBatch [extractRawStyles gradientBox]) = 1
   \<and> length (localProcessBatch [extractRawStyles gradientBox]) = 1
   \<and> getProp (hd (workerProcessBatch [extractRawStyles gradientBox])) ''gradient'' =
       JObj [(''type'', JStr ''linear''), (''angle'', JNum (Num 180)),
             (''stops'', JArr [JObj [(''color'', JNum (Num 16711680)), (''alpha'', JNum (Num 1)),
                                     (''offset'', JNum (Num 0))],
                               JObj [(''color'', JNum (Num 255)), (''alpha'', JNum (Num 1)),
                                     (''offset'', JNum (Num 1))]])]
   \<and> getProp (hd (localProcessBatch [extractRawStyles gradientBox])) ''gradient'' =
       JObj [(''type'', JStr ''linear''), (''angle'', JNum (Num 180)),
             (''stops'', JArr [JObj [(''color'', JStr ''red''), (''position'', JNum (Num 0))],
                               JObj [(''color'', JStr ''blue''), (''position'', JNum (Num 1))]])]"
  by code_simp

lemma worker_only_fields:
  "map fst (workerFragment raw) \<noteq> map fst (localFields raw)"
  "''opacity'' \<in> fst ` set (workerFragment raw)" "''opacity'' \<notin> fst ` set (localFragment raw)"
  "''display'' \<in> fst ` set (localFragment raw)" "''display'' \<notin> fst ` set (workerFragment raw)"
  by (auto simp add: workerFragment_def localFields_def localFragment_def)

lemma worker_diagonal_angle:
  "getProp (case workerParseLinearGradient ''to bottom right, red, blue'' of JObj fs \<Rightarrow> fs | _ \<Rightarrow> [])
     ''angle'' = JNum (Num 90)"
  by code_simp

subsection \<open>Capture: inherited clips\<close>

lemma fold_nodes_append:
  assumes "\<And>c s. c \<in> set cs \<Longrightarrow> \<exists>new. nodes (f c s) = nodes s @ new \<and> (\<forall>n \<in> set new. Q c n)"
  shows "\<exists>new. nodes (fold f cs s) = nodes s @ new \<and> (\<forall>n \<in> set new. \<exists>c \<in> set cs. Q c n)"
  using assms
proof (induction cs arbitrary: s)
  case Nil
  show ?case by simp
next
  case (Cons c cs)
  from Cons.prems [of c s] obtain new1
    where n1: "nodes (f c s) = nodes s @ new1" and q1: "\<forall>n \<in> set new1. Q c n" by auto
  have "\<And>d t. d \<in> set cs \<Longrightarrow> \<exists>new. nodes (f d t) = nodes t @ new \<and> (\<forall>n \<in> set new. Q d n)"
    using Cons.prems by simp
  from Cons.IH [OF this, of "f c s"] obtain new2
    where n2: "nodes (fold f cs (f c s)) = nodes (f c s) @ new2"
      and q2: "\<forall>n \<in> set new2. \<exists>d \<in> set cs. Q d n" by auto
  have "nodes (fold f (c # cs) s) = nodes s @ (new1 @ new2)" using n1 n2 by simp
  moreover have "\<forall>n \<in> set (new1 @ new2). \<exists>d \<in> set (c # cs). Q d n" using q1 q2 by auto
  ultimately show ?case by blast
qed

lemma ownNode_carries:
  "carriesInheritedClip eng rootRect e parentClip (ownNode eng rootRect e parentClip)"
proof -
  have "elementAt e [] = Some e" by simp
  moreover have "recordsElement eng rootRect (ownNode eng rootRect e parentClip) e"
    by (simp add: recordsElement_def ownNode_def Let_def)
  moreover have "nclip (ownNode eng rootRect e parentClip) = inheritedClip eng rootRect e parentClip []"
    by (simp add: ownNode_def Let_def)
  ultimately show ?thesis unfolding carriesInheritedClip_def by blast
qed

lemma child_carries:
  assumes c: "c \<in> set (children e)"
    and n: "carriesInheritedClip eng rootRect c (clipForChildren eng rootRect e parentClip) n"
  shows "carriesInheritedClip eng rootRect e parentClip n"
proof -
  from c obtain i where i: "i < length (children e)" and ci: "children e ! i = c"
    by (auto simp add: in_set_conv_nth)
  from n obtain path e' where p: "elementAt c path = Some e'"
    and r: "recordsElement eng rootRect n e'"
    and k: "nclip n = inheritedClip eng rootRect c (clipForChildren eng rootRect e parentClip) path"
    unfolding carriesInheritedClip_def by blast
  have "elementAt e (i # path) = Some e'" using i ci p by simp
  moreover have "nclip n = inheritedClip eng rootRect e parentClip (i # path)" using i ci k by simp
  ultimately show ?thesis using r unfolding carriesInheritedClip_def by blast
qed

lemma captureNode_shape:
  "\<exists>new. nodes (captureNode eng rootRect e parentClip st) = nodes st @ new
         \<and> (new = [] \<or> hd new = ownNode eng rootRect e parentClip)
         \<and> (\<forall>n \<in> set new. carriesInheritedClip eng rootRect e parentClip n)"
proof (induction eng rootRect e parentClip st rule: captureNode.induct)
  case (1 eng rootRect e parentClip st)
  let ?own = "ownNode eng rootRect e parentClip"
  let ?cc = "clipForChildren eng rootRect e parentClip"
  show ?case
  proof (cases "eid (attrsOf e) \<in> processedNodes st \<or> isHidden e")
    case True
    then have "captureNode eng rootRect e parentClip st = st"
      by (auto simp add: captureNode.simps [of eng rootRect e parentClip st])
    then show ?thesis by simp
  next
    case visible: False
    show ?thesis
    proof (cases "nodeTypeOf eng e = ''text''")
      case True
      show ?thesis
      proof (cases "orEmpty (ntext ?own) = []")
        case True
        with visible \<open>nodeTypeOf eng e = ''text''\<close>
        have "captureNode eng rootRect e parentClip st = st"
          by (simp add: captureNode.simps [of eng rootRect e parentClip st])
        then show ?thesis by simp
      next
        case False
        with visible \<open>nodeTypeOf eng e = ''text''\<close>
        have "nodes (captureNode eng rootRect e parentClip st) = nodes st @ [?own]"
          by (simp add: captureNode.simps [of eng rootRect e parentClip st])
        then show ?thesis using ownNode_carries [of eng rootRect e parentClip] by auto
      qed
    next
      case False
      let ?st1 = "\<lparr>nodes = nodes st @ [?own],
                   processedNodes = insert (eid (attrsOf e)) (processedNodes st)\<rparr>"
      let ?f = "\<lambda>child s. captureNode eng rootRect child ?cc s"
      have run: "captureNode eng rootRect e parentClip st = fold ?f (children e) ?st1"
        using visible False by (simp add: captureNode.simps [of eng rootRect e parentClip st])
      have step: "\<And>c s. c \<in> set (children e) \<Longrightarrow>
          \<exists>new. nodes (?f c s) = nodes s @ new
                \<and> (\<forall>n \<in> set new. carriesInheritedClip eng rootRect c ?cc n)"
      proof -
        fix c s
        assume c: "c \<in> set (children e)"
        from "1.IH" [of c s] visible False c
        show "\<exists>new. nodes (?f c s) = nodes s @ new
                \<and> (\<forall>n \<in> set new. carriesInheritedClip eng rootRect c ?cc n)"
          by blast
      qed
      from fold_nodes_append [of "children e" ?f "\<lambda>c n. carriesInheritedClip eng rootRect c ?cc n" ?st1, OF step]
      obtain new where n: "nodes (fold ?f (children e) ?st1) = nodes ?st1 @ new"
        and q: "\<forall>n \<in> set new. \<exists>c \<in> set (children e). carriesInheritedClip eng rootRect c ?cc n"
        by blast
      have all: "\<forall>n \<in> set (?own # new). carriesInheritedClip eng rootRect e parentClip n"
        using q ownNode_carries [of eng rootRect e parentClip] child_carries [of _ e eng rootRect parentClip]
        by auto
      have "nodes (captureNode eng rootRect e parentClip st) = nodes st @ (?own # new)"
        using run n by simp
      with all show ?thesis by (intro exI [where x = "?own # new"]) simp
    qed
  qed
qed

text \<open>
  C1. In both engines, every node of a snapshot records an element of the tree and stores
  as its clip the clip inherited along the path to that element, which is built from the
  overflow of the ancestors only; and a call of \<open>captureNode\<close> that records its element
  stores the clip it was given, whatever the element's own overflow is.
\<close>

theorem self_clip_invariant:
  "(capture eng (Some rootEl) = Some snap \<longrightarrow>
      (\<forall>n \<in> set (snodes snap).
         carriesInheritedClip eng (boundingRect (attrsOf rootEl)) rootEl None n))
   \<and> (nodes (captureNode eng rootRect e parentClip st) = nodes st
       \<or> nclip (nodes (captureNode eng rootRect e parentClip st) ! length (nodes st)) = parentClip)"
proof -
  have a: "capture eng (Some rootEl) = Some snap \<longrightarrow>
      (\<forall>n \<in> set (snodes snap).
         carriesInheritedClip eng (boundingRect (attrsOf rootEl)) rootEl None n)"
  proof
    assume c: "capture eng (Some rootEl) = Some snap"
    let ?st0 = "\<lparr>nodes = [], processedNodes = {}\<rparr>"
    from c have s: "snodes snap = nodes (captureNode eng (boundingRect (attrsOf rootEl)) rootEl None ?st0)"
      by (auto simp add: capture_def Let_def)
    from captureNode_shape [of eng "boundingRect (attrsOf rootEl)" rootEl None ?st0] s
    show "\<forall>n \<in> set (snodes snap).
           carriesInheritedClip eng (boundingRect (attrsOf rootEl)) rootEl None n"
      by auto
  qed
  from captureNode_shape [of eng rootRect e parentClip st] obtain new
    where n: "nodes (captureNode eng rootRect e parentClip st) = nodes st @ new"
      and h: "new = [] \<or> hd new = ownNode eng rootRect e parentClip" by blast
  have b: "nodes (captureNode eng rootRect e parentClip st) = nodes st
       \<or> nclip (nodes (captureNode eng rootRect e parentClip st) ! length (nodes st)) = parentClip"
  proof (cases "new = []")
    case True
    with n show ?thesis by simp
  next
    case False
    with h have "new ! 0 = ownNode eng rootRect e parentClip" by (simp add: hd_conv_nth)
    with n have "nodes (captureNode eng rootRect e parentClip st) ! length (nodes st)
                   = ownNode eng rootRect e parentClip"
      by (simp add: nth_append)
    then show ?thesis by (simp add: ownNode_def Let_def)
  qed
  from a b show ?thesis by blast
qed

theorem self_clip_invariant_witness:
  "map nclip (snodes (the (capture webEngine (Some demoRoot))))
     = [None,
        Some \<lparr>cx = 0, cy = 0, cwidth = 100, cheight = 100, cradius = Num 0\<rparr>,
        Some \<lparr>cx = 10, cy = 10, cwidth = 90, cheight = 50, cradius = Num 25\<rparr>]
   \<and> carriesInheritedClip webEngine (boundingRect (attrsOf demoRoot)) demoRoot None
         (snodes (the (capture webEngine (Some demoRoot))) ! 2)
   \<and> nclip (nodes (captureNode webEngine (boundingRect (attrsOf demoRoot)) demoRoot None
                      \<lparr>nodes = [], processedNodes = {}\<rparr>) ! 0) = None"
proof -
  let ?snap = "the (capture webEngine (Some demoRoot))"
  let ?rr = "boundingRect (attrsOf demoRoot)"
  let ?st0 = "\<lparr>nodes = [], processedNodes = {}\<rparr>"
  have c: "capture webEngine (Some demoRoot) = Some ?snap"
    by (simp add: capture_def Let_def)
  have e: "map nclip (snodes ?snap)
     = [None,
        Some \<lparr>cx = 0, cy = 0, cwidth = 100, cheight = 100, cradius = Num 0\<rparr>,
        Some \<lparr>cx = 10, cy = 10, cwidth = 90, cheight = 50, cradius = Num 25\<rparr>]"
    by code_simp
  have s: "snodes ?snap = nodes (captureNode webEngine ?rr demoRoot None ?st0)"
    by (simp add: capture_def Let_def)
  from e have "length (map nclip (snodes ?snap)) = 3" by simp
  then have l: "length (snodes ?snap) = 3" by simp
  then have m: "snodes ?snap ! 2 \<in> set (snodes ?snap)" by simp
  note t = self_clip_invariant [where eng = webEngine and rootEl = demoRoot and snap = ?snap
      and rootRect = ?rr and e = demoRoot and parentClip = None and st = ?st0]
  from t c m have a: "carriesInheritedClip webEngine ?rr demoRoot None (snodes ?snap ! 2)"
    by blast
  from l s have "nodes (captureNode webEngine ?rr demoRoot None ?st0) \<noteq> nodes ?st0" by auto
  with t have b: "nclip (nodes (captureNode webEngine ?rr demoRoot None ?st0) ! 0) = None"
    by auto
  from e a b show ?thesis by blast
qed

subsection \<open>Capture: result and defaults\<close>

lemma getProp_setProp: "getProp (setProp k v fs) k' = (if k' = k then v else getProp fs k')"
  by (induction fs) (auto simp add: getProp_def)

lemma getProp_objAssign_other:
  "k \<notin> fst ` set src \<Longrightarrow> getProp (objAssign target src) k = getProp target k"
proof (induction src arbitrary: target)
  case Nil
  show ?case by (simp add: objAssign_def)
next
  case (Cons f src)
  then have "getProp (objAssign (setProp (fst f) (snd f) target) src) k
               = getProp (setProp (fst f) (snd f) target) k" by simp
  with Cons.prems show ?case by (simp add: objAssign_def getProp_setProp)
qed

lemma getProp_objAssign_field:
  "distinct (map fst src) \<Longrightarrow> (k, v) \<in> set src \<Longrightarrow> getProp (objAssign target src) k = v"
proof (induction src arbitrary: target)
  case Nil
  then show ?case by simp
next
  case (Cons f src)
  show ?case
  proof (cases "f = (k, v)")
    case True
    with Cons.prems have "k \<notin> fst ` set src" by auto
    from getProp_objAssign_other [OF this, of "setProp k v target"] True
    show ?thesis by (simp add: objAssign_def getProp_setProp)
  next
    case False
    with Cons.prems have "(k, v) \<in> set src" and "distinct (map fst src)" by auto
    from Cons.IH [OF this(2) this(1), of "setProp (fst f) (snd f) target"]
    show ?thesis by (simp add: objAssign_def)
  qed
qed

lemma directFields_distinct: "distinct (map fst (directFields computed))"
  by (simp add: directFields_def)

lemma extractStyles_direct:
  "(k, v) \<in> set (directFields computed) \<Longrightarrow> getProp (extractStyles computed) k = v"
  unfolding extractStyles_def
  by (rule getProp_objAssign_field [OF directFields_distinct])

lemma extractStyles_opacity:
  "getProp (extractStyles computed) ''opacity''
     = JNum (Num (numOr (parseFloatOpt (computed ''opacity'')) 1))"
proof -
  have "''opacity'' \<notin> fst ` set (directFields computed)"
    by (simp add: directFields_def)
  from getProp_objAssign_other [OF this] show ?thesis
    by (simp add: extractStyles_def firstStyles_def getProp_def)
qed

lemma capture_none_iff: "capture eng element = None \<longleftrightarrow> element = None"
  by (cases element) (simp_all add: capture_def Let_def)

lemma extractStyles_zIndex:
  "getProp (extractStyles computed) ''zIndex''
     = JNum (if computed ''zIndex'' \<noteq> Some ''auto''
             then parseIntOpt (computed ''zIndex'') else Num 0)"
proof -
  have "''zIndex'' \<notin> fst ` set (directFields computed)"
    by (simp add: directFields_def)
  from getProp_objAssign_other [OF this] show ?thesis
    by (simp add: extractStyles_def firstStyles_def getProp_def)
qed

lemma extractStyles_lineHeight:
  "getProp (extractStyles computed) ''lineHeight''
     = JNum (jsOr (parseFloatOpt (computed ''lineHeight''))
                  (jsMul (parseFloatOpt (computed ''fontSize'')) (Num (12 / 10))))"
  by (rule extractStyles_direct) (simp add: directFields_def)

text \<open>
  The properties read as \<open>parse(v) || d\<close> take the default \<open>d\<close> when \<open>v\<close> does not parse:
  border width 0, font size 12, opacity 1, letter spacing 0, padding 0, and the node's own
  \<open>zIndex\<close> 0.
\<close>

lemma guarded_style_defaults:
  "(parseFloatOpt (computed ''borderTopWidth'') = NaN \<longrightarrow>
        getProp (extractStyles computed) ''borderWidth'' = JNum (Num 0))
   \<and> (parseFloatOpt (computed ''fontSize'') = NaN \<longrightarrow>
        getProp (extractStyles computed) ''fontSize'' = JNum (Num 12))
   \<and> (parseFloatOpt (computed ''opacity'') = NaN \<longrightarrow>
        getProp (extractStyles computed) ''opacity'' = JNum (Num 1))
   \<and> (parseFloatOpt (computed ''letterSpacing'') = NaN \<longrightarrow>
        getProp (extractStyles computed) ''letterSpacing'' = JNum (Num 0))
   \<and> (parseFloatOpt (computed ''paddingTop'') = NaN \<longrightarrow>
        (\<exists>rest. getProp (extractStyles computed) ''padding'' = JObj ((''top'', JNum (Num 0)) # rest)))
   \<and> (parseIntOpt (computedStyle (attrsOf e) ''zIndex'') = NaN \<longrightarrow>
        nzIndex (ownNode eng rootRect e parentClip) = Num 0)"
proof -
  have b: "getProp (extractStyles computed) ''borderWidth''
             = JNum (Num (numOr (parseFloatOpt (computed ''borderTopWidth'')) 0))"
    by (rule extractStyles_direct) (simp add: directFields_def)
  have c: "getProp (extractStyles computed) ''fontSize''
             = JNum (Num (numOr (parseFloatOpt (computed ''fontSize'')) 12))"
    by (rule extractStyles_direct) (simp add: directFields_def)
  have d: "getProp (extractStyles computed) ''letterSpacing''
             = JNum (Num (numOr (parseFloatOpt (computed ''letterSpacing'')) 0))"
    by (rule extractStyles_direct) (simp add: directFields_def)
  have p: "getProp (extractStyles computed) ''padding'' = paddingOf computed"
    by (rule extractStyles_direct) (simp add: directFields_def)
  have z: "parseIntOpt (computedStyle (attrsOf e) ''zIndex'') = NaN \<longrightarrow>
        nzIndex (ownNode eng rootRect e parentClip) = Num 0"
    by (simp add: ownNode_def Let_def)
  from b c d p z extractStyles_opacity [of computed] show ?thesis
    by (simp add: paddingOf_def)
qed

text \<open>
  \<open>styles.zIndex\<close> and \<open>styles.lineHeight\<close> have no such default: a \<open>zIndex\<close> other than
  \<open>auto\<close> that \<open>parseInt\<close> rejects, and a line height that does not parse beside a font size
  that does not parse either, are stored as \<open>NaN\<close>.
\<close>

lemma unguarded_styles_NaN:
  "(computed ''zIndex'' \<noteq> Some ''auto'' \<and> parseIntOpt (computed ''zIndex'') = NaN \<longrightarrow>
        getProp (extractStyles computed) ''zIndex'' = JNum NaN)
   \<and> (parseFloatOpt (computed ''lineHeight'') = NaN \<and> parseFloatOpt (computed ''fontSize'') = NaN \<longrightarrow>
        getProp (extractStyles computed) ''lineHeight'' = JNum NaN)"
  by (simp add: extractStyles_zIndex extractStyles_lineHeight jsOr_def)

text \<open>
  C7, at a failing input. The root is a single \<open>div\<close> whose computed style has the
  \<open>zIndex\<close> \<open>front\<close>, the font size \<open>large\<close> and the line height \<open>normal\<close>. \<open>capture\<close> (of
  WebEngine.jsx, constructed without workers) returns a snapshot of one node and raises
  nothing, yet the node's \<open>styles.zIndex\<close> and \<open>styles.lineHeight\<close> are \<open>NaN\<close>, not a
  default, while its font size is the default 12 and its own \<open>zIndex\<close> the default 0.
\<close>

theorem capture_malformed_styles_stay_NaN:
  "computedStyle (attrsOf malformedElement) ''zIndex'' = Some ''front''
   \<and> computedStyle (attrsOf malformedElement) ''fontSize'' = Some ''large''
   \<and> computedStyle (attrsOf malformedElement) ''lineHeight'' = Some ''normal''
   \<and> capture webEngine (Some malformedElement) \<noteq> None
   \<and> length (snodes (the (capture webEngine (Some malformedElement)))) = 1
   \<and> getProp (nstyles (hd (snodes (the (capture webEngine (Some malformedElement)))))) ''zIndex''
       = JNum NaN
   \<and> getProp (nstyles (hd (snodes (the (capture webEngine (Some malformedElement)))))) ''lineHeight''
       = JNum NaN
   \<and> getProp (nstyles (hd (snodes (the (capture webEngine (Some malformedElement)))))) ''fontSize''
       = JNum (Num 12)
   \<and> nzIndex (hd (snodes (the (capture webEngine (Some malformedElement))))) = Num 0"
  by code_simp

subsection \<open>Paint order\<close>

text \<open>
  C9. Each backend paints the nodes of a snapshot in ascending order of its z-index key,
  every node once, and nodes with equal keys in their capture order. (For the GPU backend
  \<open>styles.zIndex\<close> is taken to be a number or missing.)
\<close>

theorem paint_order_ascending_stable:
  "sorted (map canvasKey (renderToCanvasOrder ns))
   \<and> mset (renderToCanvasOrder ns) = mset ns
   \<and> (\<forall>k. filter (\<lambda>n. canvasKey n = k) (renderToCanvasOrder ns) = filter (\<lambda>n. canvasKey n = k) ns)
   \<and> ((\<forall>n \<in> set ns. zIndexIsNumber n) \<longrightarrow>
        sorted (map pixiKey (pixiRenderOrder ns))
        \<and> mset (pixiRenderOrder ns) = mset ns
        \<and> (\<forall>k. filter (\<lambda>n. pixiKey n = k) (pixiRenderOrder ns) = filter (\<lambda>n. pixiKey n = k) ns))"
  by (simp add: renderToCanvasOrder_def pixiRenderOrder_def sortByKey_def sort_key_stable)

theorem paint_order_ascending_stable_witness:
  "map nx (renderToCanvasOrder (snodes (the (capture webEngine (Some demoRoot))))) = [0, 20, 10]
   \<and> map nx (pixiRenderOrder (snodes (the (capture webEngine (Some demoRoot))))) = [0, 20, 10]
   \<and> sorted (map pixiKey (pixiRenderOrder (snodes (the (capture webEngine (Some demoRoot))))))"
proof -
  let ?ns = "snodes (the (capture webEngine (Some demoRoot)))"
  have w: "\<forall>n \<in> set ?ns. zIndexIsNumber n" by code_simp
  have a: "map nx (renderToCanvasOrder ?ns) = [0, 20, 10]" by code_simp
  have b: "map nx (pixiRenderOrder ?ns) = [0, 20, 10]" by code_simp
  from paint_order_ascending_stable [of ?ns] w
  have "sorted (map pixiKey (pixiRenderOrder ?ns))" by blast
  with a b show ?thesis by blast
qed

subsection \<open>Flex layout: distribution by weight\<close>

text \<open>
  For children without a \<open>flexBasis\<close>: free space is added in proportion to
  \<open>parseFloat(flexGrow) || 0\<close>, and an overflow is taken off in proportion to
  \<open>parseFloat(flexShrink) || 1\<close>, no size going below zero.
\<close>

lemma map2_same: "map2 f xs (map g xs) = map (\<lambda>x. f x (g x)) xs"
  by (induction xs) simp_all

lemma baseSizes_intrinsic:
  assumes "\<forall>c \<in> set cs. flexBasis c = Undefined"
  shows "map (baseSize avail) cs = map Num (map intrinsicMain cs)"
  using assms by (induction cs) (simp_all add: baseSize_def)

lemma flex_grow_proportional:
  assumes b: "\<forall>c \<in> set cs. flexBasis c = Undefined"
    and r: "0 < avail - totalGapOf gap (length cs) - sum_list (map intrinsicMain cs)"
    and g: "0 < sum_list (map growOf cs)"
  shows "calculateFlexSizes cs avail gap =
           map (\<lambda>c. Num (intrinsicMain c
                  + (avail - totalGapOf gap (length cs) - sum_list (map intrinsicMain cs))
                    * growOf c / sum_list (map growOf cs))) cs"
proof -
  let ?r = "avail - totalGapOf gap (length cs) - sum_list (map intrinsicMain cs)"
  have bs: "map (baseSize avail) cs = map (\<lambda>c. Num (intrinsicMain c)) cs"
    using baseSizes_intrinsic [OF b] by simp
  have tot: "foldl jsAdd (Num 0) (map (\<lambda>c. Num (intrinsicMain c)) cs)
               = Num (sum_list (map intrinsicMain cs))"
    using sumNums_Num_aux [of 0 "map intrinsicMain cs"] by (simp add: comp_def)
  have tg: "foldl (\<lambda>sum child. sum + growOf child) 0 cs = sum_list (map growOf cs)"
    using foldl_add_sum_list [of growOf 0 cs] by simp
  show ?thesis
    using r g
    by (simp add: calculateFlexSizes_def Let_def bs tot tg map2_same)
qed

lemma flex_shrink_by_weight:
  assumes b: "\<forall>c \<in> set cs. flexBasis c = Undefined"
    and r: "avail - totalGapOf gap (length cs) - sum_list (map intrinsicMain cs) < 0"
    and g: "0 < sum_list (map shrinkOf cs)"
  shows "calculateFlexSizes cs avail gap =
           map (\<lambda>c. Num (max 0 (intrinsicMain c
                  - \<bar>avail - totalGapOf gap (length cs) - sum_list (map intrinsicMain cs)\<bar>
                    * shrinkOf c / sum_list (map shrinkOf cs)))) cs"
proof -
  have bs: "map (baseSize avail) cs = map (\<lambda>c. Num (intrinsicMain c)) cs"
    using baseSizes_intrinsic [OF b] by simp
  have tot: "foldl jsAdd (Num 0) (map (\<lambda>c. Num (intrinsicMain c)) cs)
               = Num (sum_list (map intrinsicMain cs))"
    using sumNums_Num_aux [of 0 "map intrinsicMain cs"] by (simp add: comp_def)
  have tg: "foldl (\<lambda>sum child. sum + shrinkOf child) 0 cs = sum_list (map shrinkOf cs)"
    using foldl_add_sum_list [of shrinkOf 0 cs] by simp
  show ?thesis
    using r g
    by (simp add: calculateFlexSizes_def Let_def bs tot tg map2_same jsMax0_def)
qed

end
